theory Spec2Isabelle
  imports Main
begin

section \<open>Connection records and JavaScript truthiness\<close>

text \<open>
  The interface \<open>SSHConnection\<close> of ssh-client.ts. Optional fields are options
  (\<open>None\<close> is \<open>undefined\<close>). The port is declared \<open>number\<close>, but records parsed
  from JSON may lack it and the code defaults it, so it is an option too.
\<close>

datatype source = Config | Env | Binarylane

record SSHConnection =
  name :: string
  host :: string
  port :: "int option"
  username :: string
  privateKeyPath :: "string option"
  password :: "string option"
  source :: "source option"

text \<open>
  The conditions \<open>if (conn.name)\<close>, \<open>if (conn.privateKeyPath)\<close> and \<open>conn.port || 22\<close>
  test JavaScript truthiness: the empty string, \<open>undefined\<close> and \<open>0\<close> are falsy.
\<close>

definition truthy :: "string \<Rightarrow> bool" where
  "truthy s = (s \<noteq> [])"

definition truthy_opt :: "string option \<Rightarrow> bool" where
  "truthy_opt v = (case v of None \<Rightarrow> False | Some s \<Rightarrow> s \<noteq> [])"

definition port_or_22 :: "int option \<Rightarrow> int" where
  "port_or_22 p = (case p of None \<Rightarrow> 22 | Some n \<Rightarrow> if n = 0 then 22 else n)"

subsection \<open>\<open>privateKeyPath.replace(/^~/, homedir())\<close>\<close>

text \<open>
  \<open>String.prototype.replace\<close> with a string replacement expands the patterns
  \<open>$$\<close>, \<open>$&\<close>, \<open>$`\<close> and \<open>$'\<close> of the replacement. The regular expression
  \<open>/^~/\<close> has no capture group, so \<open>$1\<close> .. \<open>$99\<close> and \<open>$<\<close> stay literal; the matched
  text is the tilde, nothing precedes it, and \<open>after\<close> is the rest of the path.
\<close>

fun getSubstitution :: "string \<Rightarrow> string \<Rightarrow> string \<Rightarrow> string" where
  "getSubstitution matched after [] = []"
| "getSubstitution matched after [c] = [c]"
| "getSubstitution matched after (c # d # r) =
     (if c = CHR ''$'' \<and> d = CHR ''$'' then CHR ''$'' # getSubstitution matched after r
      else if c = CHR ''$'' \<and> d = CHR ''&'' then matched @ getSubstitution matched after r
      else if c = CHR ''$'' \<and> d = CHR 0x60 then getSubstitution matched after r
      else if c = CHR ''$'' \<and> d = CHR 0x27 then after @ getSubstitution matched after r
      else c # getSubstitution matched after (d # r))"

definition expandTilde :: "string \<Rightarrow> string \<Rightarrow> string" where
  "expandTilde homedir p =
     (case p of
        [] \<Rightarrow> []
      | c # rest \<Rightarrow>
          if c = CHR ''~'' then getSubstitution ''~'' rest homedir @ rest else p)"

section \<open>The connection manager (class \<open>SSHClientManager\<close>)\<close>

text \<open>
  \<open>connections\<close> is a JavaScript \<open>Map\<close> from names to connection objects. A \<open>Map\<close>
  iterates in insertion order, so it is an association list with unique keys. The map
  holds references: \<open>loadConnections\<close> and \<open>addConnection\<close> write to the objects
  they are given, so the objects live in a heap and the lists hold addresses.
\<close>

type_synonym ref = nat

datatype diag = InvalidConfig SSHConnection | Loaded nat

record manager =
  connections :: "(string \<times> ref) list"
  heap :: "ref \<Rightarrow> SSHConnection"
  console :: "diag list"

definition map_has :: "string \<Rightarrow> (string \<times> ref) list \<Rightarrow> bool" where
  "map_has k m = (map_of m k \<noteq> None)"

fun map_set :: "string \<Rightarrow> ref \<Rightarrow> (string \<times> ref) list \<Rightarrow> (string \<times> ref) list" where
  "map_set k v [] = [(k, v)]"
| "map_set k v (e # m) = (if fst e = k then (k, v) # m else e # map_set k v m)"

definition map_delete :: "string \<Rightarrow> (string \<times> ref) list \<Rightarrow> (string \<times> ref) list" where
  "map_delete k m = filter (\<lambda>e. fst e \<noteq> k) m"

text \<open>The two assignments \<open>loadConnections\<close> and \<open>addConnection\<close> make to a record.\<close>

definition normalise :: "string \<Rightarrow> SSHConnection \<Rightarrow> SSHConnection" where
  "normalise homedir conn =
     (let conn1 = (if truthy_opt (privateKeyPath conn)
                   then conn\<lparr>privateKeyPath := map_option (expandTilde homedir) (privateKeyPath conn)\<rparr>
                   else conn)
      in conn1\<lparr>port := Some (port_or_22 (port conn1))\<rparr>)"

text \<open>The body of the inner loop of \<open>loadConnections\<close>, for the object at address \<open>r\<close>.\<close>

definition loadOne :: "string \<Rightarrow> ref \<Rightarrow> manager \<Rightarrow> manager" where
  "loadOne homedir r st =
     (let conn = heap st r in
      if \<not> truthy (name conn) \<or> \<not> truthy (host conn) \<or> \<not> truthy (username conn)
      then st\<lparr>console := console st @ [InvalidConfig conn]\<rparr>
      else if map_has (name conn) (connections st) then st
      else st\<lparr>heap := (heap st)(r := normalise homedir conn),
              connections := map_set (name conn) r (connections st)\<rparr>)"

definition loadConnections :: "string \<Rightarrow> ref list list \<Rightarrow> manager \<Rightarrow> manager" where
  "loadConnections homedir sources st =
     (let st1 = fold (\<lambda>connectionList. fold (loadOne homedir) connectionList) sources
                  (st\<lparr>connections := []\<rparr>)
      in st1\<lparr>console := console st1 @ [Loaded (length (connections st1))]\<rparr>)"

definition addConnection :: "string \<Rightarrow> ref \<Rightarrow> manager \<Rightarrow> manager" where
  "addConnection homedir r st =
     (let conn = normalise homedir (heap st r) in
      st\<lparr>heap := (heap st)(r := conn),
         connections := map_set (name conn) r (connections st)\<rparr>)"

definition removeConnection :: "string \<Rightarrow> manager \<Rightarrow> bool \<times> manager" where
  "removeConnection n st =
     (map_has n (connections st), st\<lparr>connections := map_delete n (connections st)\<rparr>)"

definition getConnection :: "string \<Rightarrow> manager \<Rightarrow> SSHConnection option" where
  "getConnection n st = map_option (heap st) (map_of (connections st) n)"

record summary =
  sum_name :: string
  sum_host :: string
  sum_port :: "int option"
  sum_username :: string
  sum_source :: "source option"

definition listConnections :: "manager \<Rightarrow> summary list" where
  "listConnections st =
     map (\<lambda>e. let conn = heap st (snd e) in
            \<lparr>sum_name = name conn, sum_host = host conn, sum_port = port conn,
             sum_username = username conn, sum_source = source conn\<rparr>)
         (connections st)"

text \<open>
  Two notions used to state the properties of the merge: the validity test of the loop
  body, and the entries a run of the loop appends to a map whose keys are \<open>seen\<close>.
\<close>

definition valid :: "SSHConnection \<Rightarrow> bool" where
  "valid conn = (truthy (name conn) \<and> truthy (host conn) \<and> truthy (username conn))"

fun firstClaims :: "(ref \<Rightarrow> SSHConnection) \<Rightarrow> string set \<Rightarrow> ref list \<Rightarrow> (string \<times> ref) list" where
  "firstClaims h seen [] = []"
| "firstClaims h seen (r # rs) =
     (if valid (h r) \<and> name (h r) \<notin> seen
      then (name (h r), r) # firstClaims h (insert (name (h r)) seen) rs
      else firstClaims h seen rs)"

section \<open>Authentication resolution (\<open>getConnectConfig\<close>)\<close>

text \<open>
  What the code reads from the operating system: the home directory, the files
  (\<open>existsSync\<close>, \<open>readFileSync\<close>) and \<open>path.join\<close>. A file that exists may still
  fail to be read (a directory, a permission), and then \<open>readFileSync\<close> throws.
\<close>

datatype file_state = Absent | Unreadable | Content string

record os_env =
  homedir :: string
  files :: "string \<Rightarrow> file_state"
  path_join :: "string list \<Rightarrow> string"

text \<open>
  Every \<open>Error\<close> the code throws or passes on, tagged by the place it comes from:
  the two \<open>throw\<close>s before the promise, the two of \<open>getConnectConfig\<close>, an
  exception of the file system or of \<open>client.connect\<close>, the client's \<open>error\<close>
  event, the error argument of the \<open>exec\<close>/\<open>sftp\<close> callback, the error of the remote
  operation, the watchdog, and the input schema of a tool handler.
\<close>

datatype failure =
    UnknownConnection string
  | LocalFileNotFound string
  | KeyNotFound string
  | NoAuthMethod
  | FsError string
  | ConnectThrew string
  | ClientErr string
  | ChannelErr string
  | RemoteErr string
  | TimedOut int
  | ValidationError

record ConnectConfig =
  ssh_host :: string
  ssh_port :: "int option"
  ssh_username :: string
  privateKey :: "string option"
  ssh_password :: "string option"

definition existsSync :: "os_env \<Rightarrow> string \<Rightarrow> bool" where
  "existsSync env p = (files env p \<noteq> Absent)"

definition readFileSync :: "os_env \<Rightarrow> string \<Rightarrow> failure + string" where
  "readFileSync env p = (case files env p of Content b \<Rightarrow> Inr b | _ \<Rightarrow> Inl (FsError p))"

definition defaultKeys :: "os_env \<Rightarrow> string list" where
  "defaultKeys env =
     [path_join env [homedir env, ''.ssh'', ''id_ed25519''],
      path_join env [homedir env, ''.ssh'', ''id_rsa'']]"

text \<open>The loop over \<open>defaultKeys\<close>: the first path that exists is read, then \<open>break\<close>.\<close>

fun probeKeys :: "os_env \<Rightarrow> string list \<Rightarrow> failure + string option" where
  "probeKeys env [] = Inr None"
| "probeKeys env (keyPath # rest) =
     (if existsSync env keyPath
      then (case readFileSync env keyPath of Inl e \<Rightarrow> Inl e | Inr b \<Rightarrow> Inr (Some b))
      else probeKeys env rest)"

definition getConnectConfig :: "os_env \<Rightarrow> SSHConnection \<Rightarrow> failure + ConnectConfig" where
  "getConnectConfig env conn =
     (let config = \<lparr>ssh_host = host conn, ssh_port = port conn, ssh_username = username conn,
                    privateKey = None, ssh_password = None\<rparr>
      in if truthy_opt (privateKeyPath conn) then
           (case privateKeyPath conn of
              None \<Rightarrow> Inl NoAuthMethod
            | Some p \<Rightarrow>
                if \<not> existsSync env p then Inl (KeyNotFound p)
                else (case readFileSync env p of
                        Inl e \<Rightarrow> Inl e
                      | Inr b \<Rightarrow> Inr (config\<lparr>privateKey := Some b\<rparr>)))
         else if truthy_opt (password conn) then Inr (config\<lparr>ssh_password := password conn\<rparr>)
         else (case probeKeys env (defaultKeys env) of
                 Inl e \<Rightarrow> Inl e
               | Inr None \<Rightarrow> Inl NoAuthMethod
               | Inr (Some b) \<Rightarrow> Inr (config\<lparr>privateKey := Some b\<rparr>)))"

section \<open>The persistent configuration (config.ts)\<close>

text \<open>
  The interfaces of config.ts. \<open>ConnectionConfig\<close> has the fields of \<open>SSHConnection\<close>
  but \<open>source\<close>; its selectors carry the prefix \<open>cc_\<close>, since a record cannot
  reuse the selector names of another.
\<close>

record BinaryLaneConfig =
  enabled :: bool
  apiToken :: "string option"
  defaultUsername :: string
  bl_defaultPrivateKeyPath :: "string option"

record ConnectionConfig =
  cc_name :: string
  cc_host :: string
  cc_port :: "int option"
  cc_username :: string
  cc_privateKeyPath :: "string option"
  cc_password :: "string option"

record SSHMCPConfig =
  defaultPrivateKeyPath :: "string option"
  binarylane :: BinaryLaneConfig
  cfg_connections :: "ConnectionConfig list"

definition DEFAULT_CONFIG :: SSHMCPConfig where
  "DEFAULT_CONFIG =
     \<lparr>defaultPrivateKeyPath = Some ''~/.ssh/id_ed25519'',
      binarylane = \<lparr>enabled = True, apiToken = None, defaultUsername = ''root'',
                    bl_defaultPrivateKeyPath = Some ''~/.ssh/id_ed25519''\<rparr>,
      cfg_connections = []\<rparr>"

text \<open>
  The configuration file: absent, not parsable as JSON, or holding a configuration.
  \<open>writable\<close> says whether \<open>mkdirSync\<close> and \<open>writeFileSync\<close> succeed. A file that
  parses is taken to hold every required key; the optional keys it lacks are filled from
  the defaults, as \<open>loadConfig\<close> does.
\<close>

datatype config_file = NoFile | Unparsable | Parsed SSHMCPConfig

record disk =
  stored :: config_file
  writable :: bool
  configPath :: string

definition saveConfig :: "SSHMCPConfig \<Rightarrow> disk \<Rightarrow> failure + disk" where
  "saveConfig config d =
     (if writable d then Inr (d\<lparr>stored := Parsed config\<rparr>) else Inl (FsError (configPath d)))"

definition or_default :: "string option \<Rightarrow> string option \<Rightarrow> string option" where
  "or_default v dflt = (case v of None \<Rightarrow> dflt | Some x \<Rightarrow> Some x)"

definition loadConfig :: "disk \<Rightarrow> failure + SSHMCPConfig \<times> disk" where
  "loadConfig d =
     (case stored d of
        NoFile \<Rightarrow>
          (case saveConfig DEFAULT_CONFIG d of
             Inl e \<Rightarrow> Inl e
           | Inr d' \<Rightarrow> Inr (DEFAULT_CONFIG, d'))
      | Unparsable \<Rightarrow> Inr (DEFAULT_CONFIG, d)
      | Parsed parsed \<Rightarrow>
          Inr (\<lparr>defaultPrivateKeyPath =
                   or_default (defaultPrivateKeyPath parsed) (defaultPrivateKeyPath DEFAULT_CONFIG),
                 binarylane = (binarylane parsed)
                   \<lparr>bl_defaultPrivateKeyPath :=
                      or_default (bl_defaultPrivateKeyPath (binarylane parsed))
                        (bl_defaultPrivateKeyPath (binarylane DEFAULT_CONFIG))\<rparr>,
                 cfg_connections = cfg_connections parsed\<rparr>, d))"

definition addConnectionToConfig ::
  "SSHMCPConfig \<Rightarrow> ConnectionConfig \<Rightarrow> disk \<Rightarrow> failure + SSHMCPConfig \<times> disk" where
  "addConnectionToConfig config conn d =
     (let updated = config\<lparr>cfg_connections :=
                       filter (\<lambda>c. cc_name c \<noteq> cc_name conn) (cfg_connections config) @ [conn]\<rparr>
      in case saveConfig updated d of Inl e \<Rightarrow> Inl e | Inr d' \<Rightarrow> Inr (updated, d'))"

text \<open>\<open>null\<close> is \<open>None\<close>; an exception of \<open>saveConfig\<close> passes through.\<close>

definition removeConnectionFromConfig ::
  "SSHMCPConfig \<Rightarrow> string \<Rightarrow> disk \<Rightarrow> failure + SSHMCPConfig option \<times> disk" where
  "removeConnectionFromConfig config n d =
     (if \<not> list_ex (\<lambda>c. cc_name c = n) (cfg_connections config) then Inr (None, d)
      else let updated = config\<lparr>cfg_connections :=
                            filter (\<lambda>c. cc_name c \<noteq> n) (cfg_connections config)\<rparr>
           in case saveConfig updated d of Inl e \<Rightarrow> Inl e | Inr d' \<Rightarrow> Inr (Some updated, d'))"

definition redact :: "string option \<Rightarrow> string option" where
  "redact v = (if truthy_opt v then Some ''***'' else None)"

definition redactConfig :: "SSHMCPConfig \<Rightarrow> SSHMCPConfig" where
  "redactConfig config =
     config\<lparr>binarylane := (binarylane config)\<lparr>apiToken := redact (apiToken (binarylane config))\<rparr>,
            cfg_connections :=
              map (\<lambda>c. c\<lparr>cc_password := redact (cc_password c)\<rparr>) (cfg_connections config)\<rparr>"

text \<open>
  Two configurations that differ at most in the values of their secrets: the same
  fields elsewhere, and each API token and password set (truthy) in both or in neither.
\<close>

definition sameButSecrets :: "SSHMCPConfig \<Rightarrow> SSHMCPConfig \<Rightarrow> bool" where
  "sameButSecrets a b =
     (defaultPrivateKeyPath a = defaultPrivateKeyPath b \<and>
      (binarylane a)\<lparr>apiToken := None\<rparr> = (binarylane b)\<lparr>apiToken := None\<rparr> \<and>
      truthy_opt (apiToken (binarylane a)) = truthy_opt (apiToken (binarylane b)) \<and>
      list_all2 (\<lambda>x y. x\<lparr>cc_password := None\<rparr> = y\<lparr>cc_password := None\<rparr> \<and>
                        truthy_opt (cc_password x) = truthy_opt (cc_password y))
        (cfg_connections a) (cfg_connections b))"

section \<open>The tool handlers \<open>remove_connection\<close> and \<open>get_config\<close> (handlers.ts)\<close>

text \<open>
  A handler works on the manager and on the disk. \<open>ctx.reloadConnections\<close> is a
  callback the handler is given: a function on this state that may throw.
\<close>

record world =
  mgr :: manager
  dsk :: disk

datatype response = NotFoundInConfig string | Removed string string

definition remove_connection ::
  "(world \<Rightarrow> failure option \<times> world) option \<Rightarrow> string \<Rightarrow> world \<Rightarrow> (failure + response) \<times> world" where
  "remove_connection reloadConnections n w =
     (if n = [] then (Inl ValidationError, w)
      else case loadConfig (dsk w) of
        Inl e \<Rightarrow> (Inl e, w)
      | Inr (config, d1) \<Rightarrow>
          (case removeConnectionFromConfig config n d1 of
             Inl e \<Rightarrow> (Inl e, w\<lparr>dsk := d1\<rparr>)
           | Inr (None, d2) \<Rightarrow> (Inr (NotFoundInConfig n), w\<lparr>dsk := d2\<rparr>)
           | Inr (Some updated, d2) \<Rightarrow>
               (case reloadConnections of
                  None \<Rightarrow> (Inr (Removed n (configPath d2)), w\<lparr>dsk := d2\<rparr>)
                | Some reload \<Rightarrow>
                    (case reload (w\<lparr>dsk := d2\<rparr>) of
                       (Some e, w') \<Rightarrow> (Inl e, w')
                     | (None, w') \<Rightarrow> (Inr (Removed n (configPath d2)), w')))))"

definition get_config :: "disk \<Rightarrow> failure + (string \<times> SSHMCPConfig) \<times> disk" where
  "get_config d =
     (case loadConfig d of
        Inl e \<Rightarrow> Inl e
      | Inr (config, d') \<Rightarrow> Inr ((configPath d', redactConfig config), d'))"

section \<open>Sessions: one client per remote operation\<close>

text \<open>
  Each remote method creates a \<open>Client\<close>, registers handlers and returns a promise; the
  handlers run later, one at a time, when the client or the timer calls them. A session
  records the promise (\<open>settled\<close>: \<open>None\<close> while pending; a second \<open>resolve\<close> or
  \<open>reject\<close> changes nothing), whether \<open>client.end()\<close> has been called, the armed
  watchdog with its delay, whether \<open>client.connect\<close> was called, whether an
  \<open>exec\<close>/\<open>sftp\<close> callback is awaited, whether the handlers of the stream (or the
  callback of the file operation) are registered, and the text accumulated so far.
\<close>

record item =
  filename :: string
  isDirectory :: bool
  isFile :: bool
  item_size :: int
  mtime :: int

record entry =
  entry_name :: string
  entry_type :: string
  entry_size :: int
  modifyTime :: int

datatype test_message =
    ConnectedSuccessfully string "int option"
  | ConnectionTimedOut
  | ConnectionFailed string
  | ConfigurationError failure

datatype transfer_message = Uploaded string string | Downloaded string string

datatype result =
    CommandResult string string int
  | Transfer bool transfer_message
  | FileContent string
  | Listing "entry list"
  | TestResult bool test_message "int option"

datatype outcome = Resolved result | Rejected failure

record session =
  settled :: "outcome option"
  ended :: bool
  timer :: "int option"
  connected :: bool
  requested :: bool
  streaming :: bool
  stdout :: string
  stderr :: string
  content :: string

text \<open>
  What the client, the stream, the SFTP channel and the timer report: \<open>ready\<close> and
  \<open>error\<close> of the client, the watchdog, the callback of \<open>exec\<close> or \<open>sftp\<close> (with
  its error, if any), the events of the command's stream, the callback of
  \<open>fastPut\<close>/\<open>fastGet\<close>, the callback of \<open>readdir\<close>, and the events of the read
  stream. An event comes with the clock reading at its delivery.
\<close>

datatype event =
    Ready
  | ClientError string
  | TimerFired
  | ChannelOpened "string option"
  | StdoutData string
  | StderrData string
  | StreamClose "int option"
  | TransferDone "string option"
  | ReaddirDone "string option" "item list"
  | ReadData string
  | ReadEnd
  | ReadError string

definition resolve :: "result \<Rightarrow> session \<Rightarrow> session" where
  "resolve v s = (case settled s of None \<Rightarrow> s\<lparr>settled := Some (Resolved v)\<rparr> | Some _ \<Rightarrow> s)"

definition reject :: "failure \<Rightarrow> session \<Rightarrow> session" where
  "reject e s = (case settled s of None \<Rightarrow> s\<lparr>settled := Some (Rejected e)\<rparr> | Some _ \<Rightarrow> s)"

definition clientEnd :: "session \<Rightarrow> session" where
  "clientEnd s = s\<lparr>ended := True\<rparr>"

definition clearTimeout :: "session \<Rightarrow> session" where
  "clearTimeout s = s\<lparr>timer := None\<rparr>"

definition newSession :: "int option \<Rightarrow> session" where
  "newSession watchdog =
     \<lparr>settled = None, ended = False, timer = watchdog, connected = False,
      requested = False, streaming = False, stdout = [], stderr = [], content = []\<rparr>"

text \<open>
  The \<open>try\<close> block that ends every method: \<open>getConnectConfig\<close>, then
  \<open>client.connect(config)\<close>, which may throw too (a key that does not parse).
  The value is the exception caught, if any.
\<close>

definition tryConnect :: "os_env \<Rightarrow> string option \<Rightarrow> SSHConnection \<Rightarrow> failure option" where
  "tryConnect env connectThrows conn =
     (case getConnectConfig env conn of
        Inl e \<Rightarrow> Some e
      | Inr config \<Rightarrow> map_option ConnectThrew connectThrows)"

subsection \<open>\<open>runCommand\<close>\<close>

definition runCommand ::
  "os_env \<Rightarrow> string option \<Rightarrow> manager \<Rightarrow> string \<Rightarrow> string \<Rightarrow> int option \<Rightarrow> failure + session" where
  "runCommand env connectThrows st connectionName command timeoutArg =
     (case getConnection connectionName st of
        None \<Rightarrow> Inl (UnknownConnection connectionName)
      | Some conn \<Rightarrow>
          let timeout = (case timeoutArg of None \<Rightarrow> 30000 | Some t \<Rightarrow> t);
              s = newSession (Some timeout)
          in Inr (case tryConnect env connectThrows conn of
                    Some e \<Rightarrow> reject e (clearTimeout s)
                  | None \<Rightarrow> s\<lparr>connected := True\<rparr>))"

fun runCommand_on :: "int \<Rightarrow> event \<Rightarrow> session \<Rightarrow> session" where
  "runCommand_on timeout TimerFired s =
     (case timer s of
        None \<Rightarrow> s
      | Some _ \<Rightarrow> reject (TimedOut timeout) (clientEnd (s\<lparr>timer := None\<rparr>)))"
| "runCommand_on timeout Ready s =
     (if connected s then s\<lparr>requested := True\<rparr> else s)"
| "runCommand_on timeout (ChannelOpened err) s =
     (if requested s then
        (case err of
           Some e \<Rightarrow> reject (ChannelErr e) (clientEnd (clearTimeout (s\<lparr>requested := False\<rparr>)))
         | None \<Rightarrow> s\<lparr>requested := False, streaming := True\<rparr>)
      else s)"
| "runCommand_on timeout (StreamClose code) s =
     (if streaming s then
        resolve (CommandResult (stdout s) (stderr s) (case code of None \<Rightarrow> 0 | Some c \<Rightarrow> c))
          (clientEnd (clearTimeout s))
      else s)"
| "runCommand_on timeout (StdoutData d) s =
     (if streaming s then s\<lparr>stdout := stdout s @ d\<rparr> else s)"
| "runCommand_on timeout (StderrData d) s =
     (if streaming s then s\<lparr>stderr := stderr s @ d\<rparr> else s)"
| "runCommand_on timeout (ClientError m) s =
     (if connected s then reject (ClientErr m) (clearTimeout s) else s)"
| "runCommand_on timeout _ s = s"

subsection \<open>\<open>uploadFile\<close>, \<open>downloadFile\<close>, \<open>readFile\<close>, \<open>listDirectory\<close>\<close>

definition uploadFile ::
  "os_env \<Rightarrow> string option \<Rightarrow> manager \<Rightarrow> string \<Rightarrow> string \<Rightarrow> string \<Rightarrow> failure + session" where
  "uploadFile env connectThrows st connectionName localPath remotePath =
     (case getConnection connectionName st of
        None \<Rightarrow> Inl (UnknownConnection connectionName)
      | Some conn \<Rightarrow>
          if \<not> existsSync env localPath then Inl (LocalFileNotFound localPath)
          else let s = newSession None
               in Inr (case tryConnect env connectThrows conn of
                         Some e \<Rightarrow> reject e s
                       | None \<Rightarrow> s\<lparr>connected := True\<rparr>))"

text \<open>The three other SFTP methods start alike, without the test of the local file.\<close>

definition sftpStart ::
  "os_env \<Rightarrow> string option \<Rightarrow> manager \<Rightarrow> string \<Rightarrow> failure + session" where
  "sftpStart env connectThrows st connectionName =
     (case getConnection connectionName st of
        None \<Rightarrow> Inl (UnknownConnection connectionName)
      | Some conn \<Rightarrow>
          let s = newSession None
          in Inr (case tryConnect env connectThrows conn of
                    Some e \<Rightarrow> reject e s
                  | None \<Rightarrow> s\<lparr>connected := True\<rparr>))"

definition downloadFile ::
  "os_env \<Rightarrow> string option \<Rightarrow> manager \<Rightarrow> string \<Rightarrow> string \<Rightarrow> string \<Rightarrow> failure + session" where
  "downloadFile env connectThrows st connectionName remotePath localPath =
     sftpStart env connectThrows st connectionName"

definition readFile ::
  "os_env \<Rightarrow> string option \<Rightarrow> manager \<Rightarrow> string \<Rightarrow> string \<Rightarrow> failure + session" where
  "readFile env connectThrows st connectionName remotePath =
     sftpStart env connectThrows st connectionName"

definition listDirectory ::
  "os_env \<Rightarrow> string option \<Rightarrow> manager \<Rightarrow> string \<Rightarrow> string \<Rightarrow> failure + session" where
  "listDirectory env connectThrows st connectionName remotePath =
     sftpStart env connectThrows st connectionName"

text \<open>
  \<open>ready\<close> calls \<open>client.sftp\<close>; its callback ends the client and rejects on an error,
  and otherwise starts the file operation. \<open>error\<close> is \<open>client.on('error', reject)\<close>.
\<close>

fun sftp_on :: "event \<Rightarrow> session \<Rightarrow> session" where
  "sftp_on Ready s = (if connected s then s\<lparr>requested := True\<rparr> else s)"
| "sftp_on (ChannelOpened err) s =
     (if requested s then
        (case err of
           Some e \<Rightarrow> reject (ChannelErr e) (clientEnd (s\<lparr>requested := False\<rparr>))
         | None \<Rightarrow> s\<lparr>requested := False, streaming := True\<rparr>)
      else s)"
| "sftp_on (ClientError m) s = (if connected s then reject (ClientErr m) s else s)"
| "sftp_on _ s = s"

fun uploadFile_on :: "string \<Rightarrow> string \<Rightarrow> event \<Rightarrow> session \<Rightarrow> session" where
  "uploadFile_on localPath remotePath (TransferDone err) s =
     (if streaming s then
        (case err of
           Some e \<Rightarrow> reject (RemoteErr e) (clientEnd s)
         | None \<Rightarrow> resolve (Transfer True (Uploaded localPath remotePath)) (clientEnd s))
      else s)"
| "uploadFile_on localPath remotePath ev s = sftp_on ev s"

fun downloadFile_on :: "string \<Rightarrow> string \<Rightarrow> event \<Rightarrow> session \<Rightarrow> session" where
  "downloadFile_on remotePath localPath (TransferDone err) s =
     (if streaming s then
        (case err of
           Some e \<Rightarrow> reject (RemoteErr e) (clientEnd s)
         | None \<Rightarrow> resolve (Transfer True (Downloaded remotePath localPath)) (clientEnd s))
      else s)"
| "downloadFile_on remotePath localPath ev s = sftp_on ev s"

text \<open>\<open>readFile\<close> starts its text (\<open>let content = ''\<close>) when the channel opens.\<close>

fun readFile_on :: "event \<Rightarrow> session \<Rightarrow> session" where
  "readFile_on (ChannelOpened err) s =
     (if requested s then
        (case err of
           Some e \<Rightarrow> reject (ChannelErr e) (clientEnd (s\<lparr>requested := False\<rparr>))
         | None \<Rightarrow> s\<lparr>requested := False, streaming := True, content := []\<rparr>)
      else s)"
| "readFile_on (ReadData chunk) s =
     (if streaming s then s\<lparr>content := content s @ chunk\<rparr> else s)"
| "readFile_on ReadEnd s =
     (if streaming s then resolve (FileContent (content s)) (clientEnd s) else s)"
| "readFile_on (ReadError m) s =
     (if streaming s then reject (RemoteErr m) (clientEnd s) else s)"
| "readFile_on ev s = sftp_on ev s"

definition toEntry :: "item \<Rightarrow> entry" where
  "toEntry it =
     \<lparr>entry_name = filename it,
      entry_type = (if isDirectory it then ''directory'' else if isFile it then ''file'' else ''other''),
      entry_size = item_size it,
      modifyTime = mtime it * 1000\<rparr>"

fun listDirectory_on :: "event \<Rightarrow> session \<Rightarrow> session" where
  "listDirectory_on (ReaddirDone err list) s =
     (if streaming s then
        (case err of
           Some e \<Rightarrow> reject (RemoteErr e) (clientEnd s)
         | None \<Rightarrow> resolve (Listing (map toEntry list)) (clientEnd s))
      else s)"
| "listDirectory_on ev s = sftp_on ev s"

subsection \<open>\<open>testConnection\<close>\<close>

definition testConnection ::
  "os_env \<Rightarrow> string option \<Rightarrow> manager \<Rightarrow> string \<Rightarrow> failure + session" where
  "testConnection env connectThrows st connectionName =
     (case getConnection connectionName st of
        None \<Rightarrow> Inl (UnknownConnection connectionName)
      | Some conn \<Rightarrow>
          let s = newSession (Some 10000)
          in Inr (case tryConnect env connectThrows conn of
                    Some e \<Rightarrow> resolve (TestResult False (ConfigurationError e) None) (clearTimeout s)
                  | None \<Rightarrow> s\<lparr>connected := True\<rparr>))"

text \<open>\<open>startTime\<close> and \<open>now\<close> are the two readings of \<open>Date.now()\<close>.\<close>

fun testConnection_on :: "SSHConnection \<Rightarrow> int \<Rightarrow> int \<Rightarrow> event \<Rightarrow> session \<Rightarrow> session" where
  "testConnection_on conn startTime now TimerFired s =
     (case timer s of
        None \<Rightarrow> s
      | Some _ \<Rightarrow> resolve (TestResult False ConnectionTimedOut None) (clientEnd (s\<lparr>timer := None\<rparr>)))"
| "testConnection_on conn startTime now Ready s =
     (if connected s then
        resolve (TestResult True (ConnectedSuccessfully (host conn) (port conn))
                   (Some (now - startTime)))
          (clientEnd (clearTimeout s))
      else s)"
| "testConnection_on conn startTime now (ClientError m) s =
     (if connected s then
        resolve (TestResult False (ConnectionFailed m) None) (clearTimeout s)
      else s)"
| "testConnection_on conn startTime now _ s = s"

subsection \<open>The six operations together\<close>

datatype operation =
    RunCommand string "int option"
  | ReadFile string
  | ListDirectory string
  | UploadFile string string
  | DownloadFile string string
  | TestConnection

definition start ::
  "os_env \<Rightarrow> string option \<Rightarrow> manager \<Rightarrow> string \<Rightarrow> operation \<Rightarrow> failure + session" where
  "start env connectThrows st connectionName op =
     (case op of
        RunCommand command timeoutArg \<Rightarrow>
          runCommand env connectThrows st connectionName command timeoutArg
      | ReadFile remotePath \<Rightarrow> readFile env connectThrows st connectionName remotePath
      | ListDirectory remotePath \<Rightarrow> listDirectory env connectThrows st connectionName remotePath
      | UploadFile localPath remotePath \<Rightarrow>
          uploadFile env connectThrows st connectionName localPath remotePath
      | DownloadFile remotePath localPath \<Rightarrow>
          downloadFile env connectThrows st connectionName remotePath localPath
      | TestConnection \<Rightarrow> testConnection env connectThrows st connectionName)"

definition deliver ::
  "operation \<Rightarrow> SSHConnection \<Rightarrow> int \<Rightarrow> int \<times> event \<Rightarrow> session \<Rightarrow> session" where
  "deliver op conn startTime tev s =
     (case op of
        RunCommand command timeoutArg \<Rightarrow>
          runCommand_on (case timeoutArg of None \<Rightarrow> 30000 | Some t \<Rightarrow> t) (snd tev) s
      | ReadFile remotePath \<Rightarrow> readFile_on (snd tev) s
      | ListDirectory remotePath \<Rightarrow> listDirectory_on (snd tev) s
      | UploadFile localPath remotePath \<Rightarrow> uploadFile_on localPath remotePath (snd tev) s
      | DownloadFile remotePath localPath \<Rightarrow> downloadFile_on remotePath localPath (snd tev) s
      | TestConnection \<Rightarrow> testConnection_on conn startTime (fst tev) (snd tev) s)"

text \<open>
  The clock reading of the event whose handler settles a pending promise, if one of the
  events does.
\<close>

fun settleTime :: "(int \<times> event \<Rightarrow> session \<Rightarrow> session) \<Rightarrow> (int \<times> event) list \<Rightarrow> session \<Rightarrow> int option" where
  "settleTime f [] s = None"
| "settleTime f (tev # evs) s =
     (if settled (f tev s) \<noteq> None then Some (fst tev) else settleTime f evs (f tev s))"

section \<open>Example data\<close>

text \<open>Records, heaps and environments on which the theorems below are instantiated.\<close>

definition web_manual :: SSHConnection where
  "web_manual =
     \<lparr>name = ''web'', host = ''10.0.0.1'', port = None, username = ''deploy'',
      privateKeyPath = Some ''~/.ssh/deploy_key'', password = None, source = Some Config\<rparr>"

definition web_env :: SSHConnection where
  "web_env =
     \<lparr>name = ''web'', host = ''192.168.1.10'', port = Some 2222, username = ''root'',
      privateKeyPath = None, password = Some ''secret'', source = Some Env\<rparr>"

definition db_env :: SSHConnection where
  "db_env =
     \<lparr>name = ''db'', host = ''192.168.1.11'', port = Some 0, username = ''admin'',
      privateKeyPath = None, password = Some ''secret'', source = Some Env\<rparr>"

definition broken_env :: SSHConnection where
  "broken_env =
     \<lparr>name = ''cache'', host = [], port = Some 22, username = ''root'',
      privateKeyPath = None, password = None, source = Some Env\<rparr>"

definition cache_bl :: SSHConnection where
  "cache_bl =
     \<lparr>name = ''cache'', host = ''203.0.113.7'', port = Some 22, username = ''root'',
      privateKeyPath = Some ''/keys/bl'', password = None, source = Some Binarylane\<rparr>"

definition demo_heap :: "ref \<Rightarrow> SSHConnection" where
  "demo_heap r = (if r = 0 then web_manual else if r = 1 then web_env
                  else if r = 2 then db_env else if r = 4 then cache_bl else broken_env)"

definition demo_manager :: manager where
  "demo_manager = \<lparr>connections = [], heap = demo_heap, console = []\<rparr>"

definition demo_env :: os_env where
  "demo_env =
     \<lparr>homedir = ''/home/u'',
      files = (\<lambda>p. if p = ''/home/u/.ssh/id_rsa'' then Content ''RSA KEY'' else Absent),
      path_join = (\<lambda>ps. case ps of [a, b, c] \<Rightarrow> a @ ''/'' @ b @ ''/'' @ c | _ \<Rightarrow> concat ps)\<rparr>"

definition demo_config :: SSHMCPConfig where
  "demo_config =
     \<lparr>defaultPrivateKeyPath = Some ''~/.ssh/id_ed25519'',
      binarylane = \<lparr>enabled = True, apiToken = Some ''tok-123'', defaultUsername = ''root'',
                    bl_defaultPrivateKeyPath = None\<rparr>,
      cfg_connections =
        [\<lparr>cc_name = ''web'', cc_host = ''10.0.0.1'', cc_port = None, cc_username = ''deploy'',
          cc_privateKeyPath = None, cc_password = Some ''hunter2''\<rparr>,
         \<lparr>cc_name = ''db'', cc_host = ''10.0.0.2'', cc_port = Some 22, cc_username = ''admin'',
          cc_privateKeyPath = Some ''~/.ssh/db'', cc_password = None\<rparr>]\<rparr>"

definition loaded_manager :: manager where
  "loaded_manager = loadConnections ''/home/u'' [[0, 3], [1, 2]] demo_manager"

definition db_loaded :: SSHConnection where
  "db_loaded = db_env\<lparr>port := Some 22\<rparr>"

definition env_only_manager :: manager where
  "env_only_manager = loadConnections ''/home/u'' [[], [2], []] demo_manager"

section \<open>Facts about the merge\<close>

lemma normalise_keeps:
  "name (normalise hm c) = name c" "host (normalise hm c) = host c"
  "username (normalise hm c) = username c" "password (normalise hm c) = password c"
  "source (normalise hm c) = source c"
  by (simp_all add: normalise_def Let_def)

lemma valid_normalise: "valid (normalise hm c) = valid c"
  by (simp add: valid_def normalise_keeps)

lemma map_set_new: "map_of m k = None \<Longrightarrow> map_set k v m = m @ [(k, v)]"
  by (induction m) (auto split: if_splits)

lemma map_of_None_keys: "(map_of m k = None) = (k \<notin> fst ` set m)"
  by (simp add: map_of_eq_None_iff)

lemma find_append_first:
  "find P (xs @ ys) = (case find P xs of None \<Rightarrow> find P ys | Some x \<Rightarrow> Some x)"
  by (induction xs) auto

lemma firstClaims_cong:
  "(\<And>r. name (h r) = name (h' r) \<and> valid (h r) = valid (h' r)) \<Longrightarrow>
   firstClaims h seen rs = firstClaims h' seen rs"
  by (induction rs arbitrary: seen) auto

lemma firstClaims_mem:
  "(k, r) \<in> set (firstClaims h seen rs) \<Longrightarrow>
   k = name (h r) \<and> k \<notin> seen \<and> valid (h r) \<and> r \<in> set rs"
  by (induction rs arbitrary: seen) (auto split: if_splits)

lemma map_of_firstClaims:
  "map_of (firstClaims h seen rs) k =
   (if k \<in> seen then None else find (\<lambda>q. valid (h q) \<and> name (h q) = k) rs)"
  by (induction rs arbitrary: seen) auto

lemma distinct_firstClaims: "distinct (map fst (firstClaims h seen rs))"
proof (induction rs arbitrary: seen)
  case Nil
  then show ?case by simp
next
  case (Cons q rs)
  have "name (h q) \<notin> fst ` set (firstClaims h (insert (name (h q)) seen) rs)"
    using firstClaims_mem [of "name (h q)" _ h "insert (name (h q)) seen" rs] by force
  then show ?case using Cons.IH by simp
qed

text \<open>The loop body, by cases; a new key is appended to the map.\<close>

lemma loadOne_cases:
  "loadOne hm r st =
     (if \<not> valid (heap st r) then st\<lparr>console := console st @ [InvalidConfig (heap st r)]\<rparr>
      else if name (heap st r) \<in> fst ` set (connections st) then st
      else st\<lparr>heap := (heap st)(r := normalise hm (heap st r)),
              connections := connections st @ [(name (heap st r), r)]\<rparr>)"
  by (auto simp: loadOne_def Let_def valid_def map_has_def map_set_new map_of_None_keys)

lemma loadOne_keys:
  "name (heap (loadOne hm q st) r) = name (heap st r) \<and>
   valid (heap (loadOne hm q st) r) = valid (heap st r)"
  by (simp add: loadOne_cases normalise_keeps valid_normalise)

lemma fold_loadOne_connections:
  "connections (fold (loadOne hm) rs st) =
   connections st @ firstClaims (heap st) (fst ` set (connections st)) rs"
proof (induction rs arbitrary: st)
  case Nil
  then show ?case by simp
next
  case (Cons q rs)
  let ?st1 = "loadOne hm q st"
  have "connections (fold (loadOne hm) (q # rs) st) =
        connections ?st1 @ firstClaims (heap st) (fst ` set (connections ?st1)) rs"
    using Cons.IH [of ?st1] firstClaims_cong [of "heap ?st1" "heap st", OF loadOne_keys] by simp
  also have "\<dots> = connections st @ firstClaims (heap st) (fst ` set (connections st)) (q # rs)"
    by (simp add: loadOne_cases)
  finally show ?case .
qed

lemma fold_loadOne_heap:
  "heap (fold (loadOne hm) rs st) r =
   (if r \<in> snd ` set (firstClaims (heap st) (fst ` set (connections st)) rs)
    then normalise hm (heap st r) else heap st r)"
proof (induction rs arbitrary: st)
  case Nil
  then show ?case by simp
next
  case (Cons q rs)
  let ?st1 = "loadOne hm q st"
  have later: "q \<notin> snd ` set (firstClaims (heap st) (insert (name (heap st q)) seen) rs)" for seen
    using firstClaims_mem [of _ q "heap st" "insert (name (heap st q)) seen" rs] by force
  have "heap (fold (loadOne hm) (q # rs) st) r =
        (if r \<in> snd ` set (firstClaims (heap st) (fst ` set (connections ?st1)) rs)
         then normalise hm (heap ?st1 r) else heap ?st1 r)"
    using Cons.IH [of ?st1] firstClaims_cong [of "heap ?st1" "heap st", OF loadOne_keys] by simp
  also have "\<dots> = (if r \<in> snd ` set (firstClaims (heap st) (fst ` set (connections st)) (q # rs))
                    then normalise hm (heap st r) else heap st r)"
    using later by (auto simp add: loadOne_cases)
  finally show ?case .
qed

lemma fold_concat_loadOne:
  "fold (\<lambda>l. fold (loadOne hm) l) sources st = fold (loadOne hm) (concat sources) st"
  by (induction sources arbitrary: st) auto

lemma loadConnections_connections:
  "connections (loadConnections hm sources st) = firstClaims (heap st) {} (concat sources)"
  by (simp add: loadConnections_def Let_def fold_concat_loadOne fold_loadOne_connections)

lemma loadConnections_heap:
  "heap (loadConnections hm sources st) r =
   (if r \<in> snd ` set (firstClaims (heap st) {} (concat sources))
    then normalise hm (heap st r) else heap st r)"
  by (simp add: loadConnections_def Let_def fold_concat_loadOne fold_loadOne_heap)

lemma loadConnections_keys:
  "name (heap (loadConnections hm sources st) r) = name (heap st r) \<and>
   valid (heap (loadConnections hm sources st) r) = valid (heap st r)"
  by (simp add: loadConnections_heap normalise_keeps valid_normalise)

lemma loadConnections_resolves:
  "map_of (connections (loadConnections hm sources st)) x =
   find (\<lambda>q. valid (heap st q) \<and> name (heap st q) = x) (concat sources)"
  by (simp add: loadConnections_connections map_of_firstClaims)

lemma loadConnections_get:
  assumes "map_of (connections (loadConnections hm sources st)) x = Some r"
  shows "heap (loadConnections hm sources st) r = normalise hm (heap st r)"
proof -
  have "(x, r) \<in> set (firstClaims (heap st) {} (concat sources))"
    using assms by (simp add: loadConnections_connections map_of_SomeD)
  then have "r \<in> snd ` set (firstClaims (heap st) {} (concat sources))" by force
  then show ?thesis by (simp add: loadConnections_heap)
qed

subsection \<open>Tilde expansion\<close>

lemma getSubstitution_head:
  "c \<noteq> CHR ''$'' \<Longrightarrow> \<exists>t. getSubstitution m a (c # h) = c # t"
  by (cases h) auto

lemma getSubstitution_plain:
  "CHR ''$'' \<notin> set h \<Longrightarrow> getSubstitution m a h = h"
  by (induction m a h rule: getSubstitution.induct) auto

lemma expandTilde_plain:
  "CHR ''$'' \<notin> set hm \<Longrightarrow> expandTilde hm (CHR ''~'' # rest) = hm @ rest"
  by (simp add: expandTilde_def getSubstitution_plain)

lemma expandTilde_other:
  "p = [] \<or> hd p \<noteq> CHR ''~'' \<Longrightarrow> expandTilde hm p = p"
  by (cases p) (auto simp: expandTilde_def)

lemma expandTilde_idem:
  assumes "hm \<noteq> []" "hd hm \<noteq> CHR ''~''" "hd hm \<noteq> CHR ''$''"
  shows "expandTilde hm (expandTilde hm p) = expandTilde hm p"
proof (cases p)
  case Nil
  then show ?thesis by (simp add: expandTilde_def)
next
  case (Cons c rest)
  obtain d h where hm: "hm = d # h" using assms(1) by (cases hm) auto
  with assms have d: "d \<noteq> CHR ''~''" "d \<noteq> CHR ''$''" by auto
  obtain t where t: "getSubstitution ''~'' rest hm = d # t"
    using getSubstitution_head [OF d(2)] hm by blast
  show ?thesis
  proof (cases "c = CHR ''~''")
    case True
    then have "expandTilde hm p = d # t @ rest" using Cons t by (simp add: expandTilde_def)
    then show ?thesis using d by (simp add: expandTilde_def)
  next
    case False
    then show ?thesis using Cons by (simp add: expandTilde_def)
  qed
qed

lemma port_or_22_idem: "port_or_22 (Some (port_or_22 p)) = port_or_22 p"
  by (auto simp: port_or_22_def split: option.splits)

lemma normalise_idem:
  assumes "hm \<noteq> []" "hd hm \<noteq> CHR ''~''" "hd hm \<noteq> CHR ''$''"
  shows "normalise hm (normalise hm c) = normalise hm c"
  by (cases "privateKeyPath c")
     (auto simp: normalise_def Let_def port_or_22_idem expandTilde_idem [OF assms])

lemmas demo_records = web_manual_def web_env_def db_env_def broken_env_def cache_bl_def
  demo_heap_def demo_manager_def

lemmas merge_eval = loadConnections_def loadOne_def map_has_def normalise_def truthy_def
  truthy_opt_def port_or_22_def expandTilde_def getConnection_def Let_def valid_def

section \<open>The claims about the registry\<close>

text \<open>
  C3, as stated, fails when the record of the higher-priority list does not pass the
  validity test: \<open>S1\<close> holds a record named \<open>cache\<close> with an empty host, \<open>S2\<close> a
  valid record of that name; the loop skips the first, and the registry resolves
  \<open>cache\<close> to the record of \<open>S2\<close>, which is not discarded.
\<close>

theorem invalid_record_yields_priority:
  "name (heap demo_manager 3) = ''cache'' \<and> host (heap demo_manager 3) = [] \<and>
   name (heap demo_manager 4) = ''cache'' \<and>
   map_of (connections (loadConnections ''/home/u'' [[3], [4]] demo_manager)) ''cache'' = Some 4 \<and>
   getConnection ''cache'' (loadConnections ''/home/u'' [[3], [4]] demo_manager) = Some cache_bl"
  by (simp add: merge_eval demo_records)

text \<open>
  C3, amended. Priority merge. When the higher-priority list \<open>S1\<close> holds a record named
  \<open>x\<close> that passes the validity test (\<open>r1\<close> is the first such), then after
  \<open>loadConnections([S1, S2])\<close> the registry resolves \<open>x\<close> to that very object of \<open>S1\<close>:
  the map stores the reference \<open>r1\<close>, and the object's value is the value it had before
  the call with the port defaulted and the key path expanded, computed from \<open>S1\<close>'s
  record alone. What \<open>S2\<close> holds makes no difference: with any other list in its place
  the registry resolves \<open>x\<close> to the same record, so no field of a record of \<open>S2\<close> enters.
\<close>

theorem priority_merge:
  assumes "find (\<lambda>r. valid (heap st r) \<and> name (heap st r) = x) S1 = Some r1"
  shows "map_of (connections (loadConnections hm [S1, S2] st)) x = Some r1 \<and>
         getConnection x (loadConnections hm [S1, S2] st) =
           Some (heap (loadConnections hm [S1, S2] st) r1) \<and>
         heap (loadConnections hm [S1, S2] st) r1 = normalise hm (heap st r1) \<and>
         getConnection x (loadConnections hm [S1, S2'] st) =
           getConnection x (loadConnections hm [S1, S2] st)"
proof -
  have m: "map_of (connections (loadConnections hm [S1, T] st)) x = Some r1" for T
    using assms by (simp add: loadConnections_resolves find_append_first)
  have g: "getConnection x (loadConnections hm [S1, T] st) = Some (normalise hm (heap st r1))" for T
    using m [of T] loadConnections_get [OF m [of T]] by (simp add: getConnection_def)
  show ?thesis
    using m [of S2] loadConnections_get [OF m [of S2]] g [of S2] g [of S2'] by simp
qed

theorem priority_merge_witness:
  "find (\<lambda>r. valid (heap demo_manager r) \<and> name (heap demo_manager r) = ''web'') [0, 2] = Some 0 \<and>
   name (heap demo_manager 1) = ''web'' \<and>
   getConnection ''web'' (loadConnections ''/home/u'' [[0, 2], [1, 3]] demo_manager) =
     Some (web_manual\<lparr>port := Some 22, privateKeyPath := Some ''/home/u/.ssh/deploy_key''\<rparr>)"
proof -
  have f: "find (\<lambda>r. valid (heap demo_manager r) \<and> name (heap demo_manager r) = ''web'') [0, 2]
           = Some 0"
    by (simp add: demo_records valid_def truthy_def)
  show ?thesis
    using f priority_merge [OF f, of "''/home/u''" "[1, 3]"]
    by (simp add: demo_records normalise_def truthy_opt_def port_or_22_def expandTilde_def)
qed

text \<open>
  C7. Acceptance during the merge. The loop body accepts the record at \<open>r\<close> exactly when
  its name, host and username are non-empty and the map has no entry of its name: then
  the entry is appended and the object gets its port defaulted (22 when absent or zero)
  and its key path expanded, at that moment. Otherwise the map and the heap are unchanged,
  and an invalid record leaves a diagnostic on the console; the loop goes on either way,
  so that after the whole merge a name resolves to the first valid record of that name
  in the sources, in their order. The expansion replaces a leading tilde by the home
  directory (when that has no dollar sign, which \<open>replace\<close> treats specially) and
  leaves any other path as it is.
\<close>

theorem merge_acceptance:
  "(if valid (heap st r) \<and> getConnection (name (heap st r)) st = None
    then connections (loadOne hm r st) = connections st @ [(name (heap st r), r)] \<and>
         heap (loadOne hm r st) = (heap st)(r := normalise hm (heap st r)) \<and>
         console (loadOne hm r st) = console st
    else connections (loadOne hm r st) = connections st \<and>
         heap (loadOne hm r st) = heap st \<and>
         console (loadOne hm r st) =
           (if valid (heap st r) then console st else console st @ [InvalidConfig (heap st r)])) \<and>
   map_of (connections (loadConnections hm sources st)) x =
     find (\<lambda>q. valid (heap st q) \<and> name (heap st q) = x) (concat sources) \<and>
   port (normalise hm c) =
     Some (case port c of None \<Rightarrow> 22 | Some n \<Rightarrow> if n = 0 then 22 else n) \<and>
   privateKeyPath (normalise hm c) = map_option (expandTilde hm) (privateKeyPath c) \<and>
   (CHR ''$'' \<notin> set hm \<longrightarrow> expandTilde hm (CHR ''~'' # rest) = hm @ rest) \<and>
   (p = [] \<or> hd p \<noteq> CHR ''~'' \<longrightarrow> expandTilde hm p = p)"
proof -
  have has: "(getConnection (name (heap st r)) st = None) =
             (name (heap st r) \<notin> fst ` set (connections st))"
    by (simp add: getConnection_def map_of_None_keys)
  have step: "if valid (heap st r) \<and> getConnection (name (heap st r)) st = None
    then connections (loadOne hm r st) = connections st @ [(name (heap st r), r)] \<and>
         heap (loadOne hm r st) = (heap st)(r := normalise hm (heap st r)) \<and>
         console (loadOne hm r st) = console st
    else connections (loadOne hm r st) = connections st \<and>
         heap (loadOne hm r st) = heap st \<and>
         console (loadOne hm r st) =
           (if valid (heap st r) then console st else console st @ [InvalidConfig (heap st r)])"
    unfolding has by (simp add: loadOne_cases)
  have prt: "port (normalise hm c) =
     Some (case port c of None \<Rightarrow> 22 | Some n \<Rightarrow> if n = 0 then 22 else n)"
    by (simp add: normalise_def Let_def port_or_22_def)
  have pth: "privateKeyPath (normalise hm c) = map_option (expandTilde hm) (privateKeyPath c)"
    by (cases "privateKeyPath c") (auto simp: normalise_def Let_def truthy_opt_def expandTilde_def)
  show ?thesis
    using step prt pth loadConnections_resolves [of hm sources st x]
      expandTilde_plain [of hm rest] expandTilde_other [of p hm]
    by blast
qed

theorem merge_acceptance_witness:
  "getConnection ''db'' (loadConnections ''/home/u'' [[3, 0], [1, 2]] demo_manager) =
     Some (db_env\<lparr>port := Some 22\<rparr>) \<and>
   getConnection ''cache'' (loadConnections ''/home/u'' [[3, 0], [1, 2]] demo_manager) = None \<and>
   map (fst) (connections (loadConnections ''/home/u'' [[3, 0], [1, 2]] demo_manager)) =
     [''web'', ''db''] \<and>
   console (loadOne ''/home/u'' 3 demo_manager) = [InvalidConfig broken_env] \<and>
   expandTilde ''/home/u'' ''~/.ssh/deploy_key'' = ''/home/u/.ssh/deploy_key''"
proof -
  have a: "map_of (connections (loadConnections ''/home/u'' [[3, 0], [1, 2]] demo_manager)) ''db''
           = Some 2"
    using merge_acceptance [of demo_manager 3 "''/home/u''" "[[3, 0], [1, 2]]" "''db''"]
    by (simp add: demo_records valid_def truthy_def)
  have b: "console (loadOne ''/home/u'' 3 demo_manager) = [InvalidConfig broken_env]"
    using merge_acceptance [of demo_manager 3 "''/home/u''"]
    by (simp add: demo_records valid_def truthy_def)
  have c: "expandTilde ''/home/u'' ''~/.ssh/deploy_key'' = ''/home/u/.ssh/deploy_key''"
    using merge_acceptance [of _ _ "''/home/u''" _ _ _ "''/.ssh/deploy_key''"] by simp
  show ?thesis
    using a b c by (simp add: merge_eval demo_records)
qed

text \<open>
  C8. Idempotent merge. For every list of source lists \<open>L\<close>, every heap and every
  sharing of objects between the lists, a second \<open>loadConnections(L)\<close> on the objects
  the first call has already rewritten leaves the map (with its order) and every object
  as the first call left them, so \<open>getConnection\<close> and \<open>listConnections\<close> answer the
  same. The home directory is taken not to begin with a tilde or a dollar sign (and not
  to be empty), as an absolute path does not: the expansion of an expanded path is then
  the path itself.
\<close>

theorem merge_idempotent:
  assumes "hm \<noteq> []" "hd hm \<noteq> CHR ''~''" "hd hm \<noteq> CHR ''$''"
  shows "connections (loadConnections hm L (loadConnections hm L st)) =
           connections (loadConnections hm L st) \<and>
         heap (loadConnections hm L (loadConnections hm L st)) =
           heap (loadConnections hm L st) \<and>
         listConnections (loadConnections hm L (loadConnections hm L st)) =
           listConnections (loadConnections hm L st) \<and>
         getConnection n (loadConnections hm L (loadConnections hm L st)) =
           getConnection n (loadConnections hm L st)"
proof -
  let ?st1 = "loadConnections hm L st"
  have same: "firstClaims (heap ?st1) {} (concat L) = firstClaims (heap st) {} (concat L)"
    by (rule firstClaims_cong) (rule loadConnections_keys)
  have c: "connections (loadConnections hm L ?st1) = connections ?st1"
    by (simp only: loadConnections_connections same)
  have "heap (loadConnections hm L ?st1) r = heap ?st1 r" for r
    by (simp add: loadConnections_heap [of hm L ?st1] same)
       (simp add: loadConnections_heap normalise_idem [OF assms])
  then have h: "heap (loadConnections hm L ?st1) = heap ?st1" by (rule ext)
  show ?thesis using c h by (simp add: listConnections_def getConnection_def)
qed

theorem merge_idempotent_witness:
  "connections (loadConnections ''/home/u'' [[0, 3], [1, 2]]
      (loadConnections ''/home/u'' [[0, 3], [1, 2]] demo_manager)) = [(''web'', 0), (''db'', 2)] \<and>
   getConnection ''web'' (loadConnections ''/home/u'' [[0, 3], [1, 2]]
      (loadConnections ''/home/u'' [[0, 3], [1, 2]] demo_manager)) =
     Some (web_manual\<lparr>port := Some 22, privateKeyPath := Some ''/home/u/.ssh/deploy_key''\<rparr>)"
  using merge_idempotent [of "''/home/u''" "[[0, 3], [1, 2]]" demo_manager "''web''"]
  by (simp add: merge_eval demo_records)

text \<open>
  C9. Name uniqueness. After any merge, from any state, the names of the records that
  \<open>listConnections\<close> returns are pairwise distinct.
\<close>

theorem names_unique:
  "distinct (map sum_name (listConnections (loadConnections hm sources st)))"
proof -
  let ?st1 = "loadConnections hm sources st"
  have "map sum_name (listConnections ?st1) = map (\<lambda>e. name (heap ?st1 (snd e))) (connections ?st1)"
    by (simp add: listConnections_def Let_def comp_def)
  also have "\<dots> = map fst (connections ?st1)"
  proof (rule map_cong [OF refl])
    fix e assume "e \<in> set (connections ?st1)"
    then have "(fst e, snd e) \<in> set (firstClaims (heap st) {} (concat sources))"
      by (simp add: loadConnections_connections)
    then have "fst e = name (heap st (snd e))" by (rule firstClaims_mem [THEN conjunct1])
    then show "name (heap ?st1 (snd e)) = fst e" by (simp add: loadConnections_keys)
  qed
  finally show ?thesis by (simp add: loadConnections_connections distinct_firstClaims)
qed

theorem names_unique_witness:
  "map sum_name (listConnections (loadConnections ''/home/u'' [[0, 3], [1, 2]] demo_manager)) =
     [''web'', ''db''] \<and>
   distinct (map sum_name (listConnections (loadConnections ''/home/u'' [[0, 3], [1, 2]] demo_manager)))"
  using names_unique [of "''/home/u''" "[[0, 3], [1, 2]]" demo_manager]
  by (simp add: merge_eval demo_records listConnections_def)

section \<open>The claim about authentication\<close>

text \<open>
  C6. Order of authentication resolution, for every record and every state of the file
  system. A field is set when the code's test \<open>if (conn.privateKeyPath)\<close>,
  \<open>if (conn.password)\<close> finds it truthy: present and not the empty string.
  (1) With \<open>privateKeyPath\<close> set, the key file must exist: an absent file fails with
  \<open>KeyNotFound\<close>, a file that cannot be read with the file system's error, and the
  password and the default keys are not looked at. (2) Otherwise, with \<open>password\<close> set,
  the password is used. (3) Otherwise the ed25519 key, then the RSA key of the home's
  \<open>.ssh\<close> directory are probed, and the first that exists is read. (4) When neither
  exists, resolution fails with \<open>NoAuthMethod\<close>.
\<close>

theorem auth_resolution_order:
  "(truthy_opt (privateKeyPath conn) \<longrightarrow>
      (\<exists>p. privateKeyPath conn = Some p \<and>
        getConnectConfig env conn =
          (case files env p of
             Absent \<Rightarrow> Inl (KeyNotFound p)
           | Unreadable \<Rightarrow> Inl (FsError p)
           | Content b \<Rightarrow>
               Inr \<lparr>ssh_host = host conn, ssh_port = port conn, ssh_username = username conn,
                    privateKey = Some b, ssh_password = None\<rparr>))) \<and>
   (\<not> truthy_opt (privateKeyPath conn) \<and> truthy_opt (password conn) \<longrightarrow>
      getConnectConfig env conn =
        Inr \<lparr>ssh_host = host conn, ssh_port = port conn, ssh_username = username conn,
             privateKey = None, ssh_password = password conn\<rparr>) \<and>
   (\<not> truthy_opt (privateKeyPath conn) \<and> \<not> truthy_opt (password conn) \<longrightarrow>
      getConnectConfig env conn =
        (case files env (path_join env [homedir env, ''.ssh'', ''id_ed25519'']) of
           Content b \<Rightarrow>
             Inr \<lparr>ssh_host = host conn, ssh_port = port conn, ssh_username = username conn,
                  privateKey = Some b, ssh_password = None\<rparr>
         | Unreadable \<Rightarrow> Inl (FsError (path_join env [homedir env, ''.ssh'', ''id_ed25519'']))
         | Absent \<Rightarrow>
             (case files env (path_join env [homedir env, ''.ssh'', ''id_rsa'']) of
                Content b \<Rightarrow>
                  Inr \<lparr>ssh_host = host conn, ssh_port = port conn, ssh_username = username conn,
                       privateKey = Some b, ssh_password = None\<rparr>
              | Unreadable \<Rightarrow> Inl (FsError (path_join env [homedir env, ''.ssh'', ''id_rsa'']))
              | Absent \<Rightarrow> Inl NoAuthMethod)))"
proof -
  have key: "truthy_opt (privateKeyPath conn) \<Longrightarrow>
      \<exists>p. privateKeyPath conn = Some p \<and>
        getConnectConfig env conn =
          (case files env p of
             Absent \<Rightarrow> Inl (KeyNotFound p)
           | Unreadable \<Rightarrow> Inl (FsError p)
           | Content b \<Rightarrow>
               Inr \<lparr>ssh_host = host conn, ssh_port = port conn, ssh_username = username conn,
                    privateKey = Some b, ssh_password = None\<rparr>)"
    by (cases "privateKeyPath conn")
       (auto simp: getConnectConfig_def truthy_opt_def existsSync_def readFileSync_def
          split: file_state.splits)
  have pw: "\<not> truthy_opt (privateKeyPath conn) \<Longrightarrow> truthy_opt (password conn) \<Longrightarrow>
      getConnectConfig env conn =
        Inr \<lparr>ssh_host = host conn, ssh_port = port conn, ssh_username = username conn,
             privateKey = None, ssh_password = password conn\<rparr>"
    by (simp add: getConnectConfig_def)
  have dflt: "\<not> truthy_opt (privateKeyPath conn) \<Longrightarrow> \<not> truthy_opt (password conn) \<Longrightarrow>
      getConnectConfig env conn =
        (case files env (path_join env [homedir env, ''.ssh'', ''id_ed25519'']) of
           Content b \<Rightarrow>
             Inr \<lparr>ssh_host = host conn, ssh_port = port conn, ssh_username = username conn,
                  privateKey = Some b, ssh_password = None\<rparr>
         | Unreadable \<Rightarrow> Inl (FsError (path_join env [homedir env, ''.ssh'', ''id_ed25519'']))
         | Absent \<Rightarrow>
             (case files env (path_join env [homedir env, ''.ssh'', ''id_rsa'']) of
                Content b \<Rightarrow>
                  Inr \<lparr>ssh_host = host conn, ssh_port = port conn, ssh_username = username conn,
                       privateKey = Some b, ssh_password = None\<rparr>
              | Unreadable \<Rightarrow> Inl (FsError (path_join env [homedir env, ''.ssh'', ''id_rsa'']))
              | Absent \<Rightarrow> Inl NoAuthMethod))"
    by (simp add: getConnectConfig_def defaultKeys_def existsSync_def readFileSync_def
          split: file_state.splits)
  show ?thesis using key pw dflt by blast
qed

theorem auth_resolution_order_witness:
  "getConnectConfig demo_env web_manual = Inl (KeyNotFound ''~/.ssh/deploy_key'') \<and>
   getConnectConfig demo_env web_env =
     Inr \<lparr>ssh_host = ''192.168.1.10'', ssh_port = Some 2222, ssh_username = ''root'',
          privateKey = None, ssh_password = Some ''secret''\<rparr> \<and>
   getConnectConfig demo_env broken_env =
     Inr \<lparr>ssh_host = [], ssh_port = Some 22, ssh_username = ''root'',
          privateKey = Some ''RSA KEY'', ssh_password = None\<rparr> \<and>
   getConnectConfig (demo_env\<lparr>files := \<lambda>p. Absent\<rparr>) broken_env = Inl NoAuthMethod"
  using auth_resolution_order [of web_manual demo_env]
    auth_resolution_order [of web_env demo_env]
    auth_resolution_order [of broken_env demo_env]
    auth_resolution_order [of broken_env "demo_env\<lparr>files := \<lambda>p. Absent\<rparr>"]
  by (simp add: demo_records demo_env_def truthy_opt_def)

section \<open>The claims about the configuration file\<close>

lemma redact_values: "redact v = None \<or> redact v = Some ''***''"
  by (simp add: redact_def)

lemma redact_connections_same:
  "list_all2 (\<lambda>x y. x\<lparr>cc_password := None\<rparr> = y\<lparr>cc_password := None\<rparr> \<and>
                    truthy_opt (cc_password x) = truthy_opt (cc_password y)) xs ys \<Longrightarrow>
   map (\<lambda>c. c\<lparr>cc_password := redact (cc_password c)\<rparr>) xs =
   map (\<lambda>c. c\<lparr>cc_password := redact (cc_password c)\<rparr>) ys"
proof (induction rule: list_all2_induct)
  case Nil
  then show ?case by simp
next
  case (Cons x xs y ys)
  from Cons.hyps(1) have r: "redact (cc_password x) = redact (cc_password y)"
    by (simp add: redact_def)
  from Cons.hyps(1) have
    "(x\<lparr>cc_password := None\<rparr>)\<lparr>cc_password := redact (cc_password y)\<rparr> =
     (y\<lparr>cc_password := None\<rparr>)\<lparr>cc_password := redact (cc_password y)\<rparr>"
    by simp
  then have "x\<lparr>cc_password := redact (cc_password x)\<rparr> = y\<lparr>cc_password := redact (cc_password y)\<rparr>"
    using r by simp
  then show ?case using Cons.IH by simp
qed

lemma redactConfig_same:
  assumes "sameButSecrets a b"
  shows "redactConfig a = redactConfig b"
proof -
  from assms have r: "redact (apiToken (binarylane a)) = redact (apiToken (binarylane b))"
    by (simp add: sameButSecrets_def redact_def)
  from assms have
    "((binarylane a)\<lparr>apiToken := None\<rparr>)\<lparr>apiToken := redact (apiToken (binarylane b))\<rparr> =
     ((binarylane b)\<lparr>apiToken := None\<rparr>)\<lparr>apiToken := redact (apiToken (binarylane b))\<rparr>"
    by (simp add: sameButSecrets_def)
  then have bl: "(binarylane a)\<lparr>apiToken := redact (apiToken (binarylane a))\<rparr> =
                 (binarylane b)\<lparr>apiToken := redact (apiToken (binarylane b))\<rparr>"
    using r by simp
  from assms have cs: "map (\<lambda>c. c\<lparr>cc_password := redact (cc_password c)\<rparr>) (cfg_connections a) =
                       map (\<lambda>c. c\<lparr>cc_password := redact (cc_password c)\<rparr>) (cfg_connections b)"
    by (simp add: sameButSecrets_def redact_connections_same)
  from assms have d: "defaultPrivateKeyPath a = defaultPrivateKeyPath b"
    by (simp add: sameButSecrets_def)
  show ?thesis
    using bl cs d by (cases a, cases b) (simp add: redactConfig_def)
qed

text \<open>
  C10. Redaction. A secret is present when the code's test \<open>c.password ? '***' : undefined\<close>
  finds it truthy (a non-empty string); an empty string counts as absent, as the code
  treats it. \<open>redactConfig\<close> returns its input with a present API token and each
  present password replaced by \<open>***\<close> and an absent one absent, and every other
  field as it was. So every secret of the output is \<open>***\<close> or absent, two configurations
  that differ only in the values of their present secrets have the same redaction, and
  \<open>get_config\<close> returns the redaction of the configuration it loads.
\<close>

theorem redactConfig_hides_secrets:
  "defaultPrivateKeyPath (redactConfig c) = defaultPrivateKeyPath c \<and>
   binarylane (redactConfig c) =
     (binarylane c)\<lparr>apiToken :=
        (if truthy_opt (apiToken (binarylane c)) then Some ''***'' else None)\<rparr> \<and>
   cfg_connections (redactConfig c) =
     map (\<lambda>k. k\<lparr>cc_password := (if truthy_opt (cc_password k) then Some ''***'' else None)\<rparr>)
       (cfg_connections c) \<and>
   (sameButSecrets a b \<longrightarrow> redactConfig a = redactConfig b) \<and>
   (loadConfig d = Inr (c, d') \<longrightarrow> get_config d = Inr ((configPath d', redactConfig c), d'))"
  using redactConfig_same [of a b]
  by (simp add: redactConfig_def redact_def get_config_def)

theorem redactConfig_hides_secrets_witness:
  "sameButSecrets demo_config
     (demo_config\<lparr>binarylane := (binarylane demo_config)\<lparr>apiToken := Some ''other-token''\<rparr>,
        cfg_connections := [(hd (cfg_connections demo_config))\<lparr>cc_password := Some ''pw2''\<rparr>,
                            cfg_connections demo_config ! 1]\<rparr>) \<and>
   redactConfig demo_config =
     redactConfig (demo_config\<lparr>binarylane := (binarylane demo_config)\<lparr>apiToken := Some ''other-token''\<rparr>,
        cfg_connections := [(hd (cfg_connections demo_config))\<lparr>cc_password := Some ''pw2''\<rparr>,
                            cfg_connections demo_config ! 1]\<rparr>) \<and>
   apiToken (binarylane (redactConfig demo_config)) = Some ''***'' \<and>
   map cc_password (cfg_connections (redactConfig demo_config)) = [Some ''***'', None] \<and>
   get_config \<lparr>stored = Parsed demo_config, writable = True, configPath = ''/home/u/c.json''\<rparr> =
     Inr ((''/home/u/c.json'',
           redactConfig (demo_config\<lparr>binarylane :=
             (binarylane demo_config)\<lparr>bl_defaultPrivateKeyPath := Some ''~/.ssh/id_ed25519''\<rparr>\<rparr>)),
          \<lparr>stored = Parsed demo_config, writable = True, configPath = ''/home/u/c.json''\<rparr>)"
proof -
  have s: "sameButSecrets demo_config
     (demo_config\<lparr>binarylane := (binarylane demo_config)\<lparr>apiToken := Some ''other-token''\<rparr>,
        cfg_connections := [(hd (cfg_connections demo_config))\<lparr>cc_password := Some ''pw2''\<rparr>,
                            cfg_connections demo_config ! 1]\<rparr>)"
    by (simp add: sameButSecrets_def demo_config_def truthy_opt_def)
  have l: "loadConfig \<lparr>stored = Parsed demo_config, writable = True, configPath = ''/home/u/c.json''\<rparr> =
     Inr (demo_config\<lparr>binarylane :=
             (binarylane demo_config)\<lparr>bl_defaultPrivateKeyPath := Some ''~/.ssh/id_ed25519''\<rparr>\<rparr>,
          \<lparr>stored = Parsed demo_config, writable = True, configPath = ''/home/u/c.json''\<rparr>)"
    by (simp add: loadConfig_def or_default_def demo_config_def DEFAULT_CONFIG_def)
  show ?thesis
    using s l
      redactConfig_hides_secrets [of demo_config demo_config
        "demo_config\<lparr>binarylane := (binarylane demo_config)\<lparr>apiToken := Some ''other-token''\<rparr>,
          cfg_connections := [(hd (cfg_connections demo_config))\<lparr>cc_password := Some ''pw2''\<rparr>,
                              cfg_connections demo_config ! 1]\<rparr>"]
      redactConfig_hides_secrets [of
        "demo_config\<lparr>binarylane :=
             (binarylane demo_config)\<lparr>bl_defaultPrivateKeyPath := Some ''~/.ssh/id_ed25519''\<rparr>\<rparr>"
        _ _ "\<lparr>stored = Parsed demo_config, writable = True, configPath = ''/home/u/c.json''\<rparr>"
        "\<lparr>stored = Parsed demo_config, writable = True, configPath = ''/home/u/c.json''\<rparr>"]
    by (simp add: demo_config_def truthy_opt_def)
qed

lemma map_of_map_delete: "map_of (map_delete n m) n = None"
  by (induction m) (auto simp: map_delete_def)

text \<open>
  C5, as stated, fails on the registry's own \<open>removeConnection\<close>: a record that exists
  only through the environment source is deleted, and the call returns \<open>true\<close>.
\<close>

theorem removeConnection_ignores_source:
  "map_option source (getConnection ''db'' env_only_manager) = Some (Some Env) \<and>
   fst (removeConnection ''db'' env_only_manager) = True \<and>
   getConnection ''db'' (snd (removeConnection ''db'' env_only_manager)) = None \<and>
   connections (snd (removeConnection ''db'' env_only_manager)) \<noteq> connections env_only_manager"
  by (simp add: env_only_manager_def removeConnection_def map_delete_def merge_eval demo_records)

text \<open>
  C5, amended. The scope of removal is enforced on the configuration file, not in the
  registry. \<open>removeConnection\<close> deletes the entry of the name whatever the source of
  its record and returns whether there was one. \<open>removeConnectionFromConfig\<close> returns
  \<open>null\<close>, writing nothing, exactly when no manual connection of the configuration has
  the name, and otherwise saves the configuration without the connections of that name.
  The \<open>remove_connection\<close> tool reports success only for a name among the file's manual
  connections; for any other name it reports not-found and leaves the registry as it
  was, and the disk as \<open>loadConfig\<close> left it: untouched when the configuration file
  exists, and holding the default configuration, which \<open>loadConfig\<close> writes, when
  there was no file.
\<close>

theorem remove_scope:
  "removeConnection n st =
     (getConnection n st \<noteq> None, st\<lparr>connections := filter (\<lambda>e. fst e \<noteq> n) (connections st)\<rparr>) \<and>
   getConnection n (snd (removeConnection n st)) = None \<and>
   (removeConnectionFromConfig config n d = Inr (None, d)) =
     (n \<notin> cc_name ` set (cfg_connections config)) \<and>
   (n \<in> cc_name ` set (cfg_connections config) \<and> writable d \<longrightarrow>
      removeConnectionFromConfig config n d =
        Inr (Some (config\<lparr>cfg_connections := filter (\<lambda>c. cc_name c \<noteq> n) (cfg_connections config)\<rparr>),
             d\<lparr>stored := Parsed (config\<lparr>cfg_connections :=
                  filter (\<lambda>c. cc_name c \<noteq> n) (cfg_connections config)\<rparr>)\<rparr>)) \<and>
   (n \<noteq> [] \<and> loadConfig (dsk w) = Inr (config, d1) \<and>
    n \<notin> cc_name ` set (cfg_connections config) \<longrightarrow>
      remove_connection reload n w = (Inr (NotFoundInConfig n), w\<lparr>dsk := d1\<rparr>)) \<and>
   (n \<noteq> [] \<and> stored (dsk w) \<noteq> NoFile \<and> loadConfig (dsk w) = Inr (config, d1) \<and>
    n \<notin> cc_name ` set (cfg_connections config) \<longrightarrow>
      remove_connection reload n w = (Inr (NotFoundInConfig n), w)) \<and>
   (n \<noteq> [] \<and> stored (dsk w) = NoFile \<and> writable (dsk w) \<longrightarrow>
      remove_connection reload n w =
        (Inr (NotFoundInConfig n), w\<lparr>dsk := (dsk w)\<lparr>stored := Parsed DEFAULT_CONFIG\<rparr>\<rparr>)) \<and>
   (fst (remove_connection reload n w) = Inr (Removed n path) \<longrightarrow>
      (\<exists>cfg d1. loadConfig (dsk w) = Inr (cfg, d1) \<and> n \<in> cc_name ` set (cfg_connections cfg)))"
proof -
  have ex: "list_ex (\<lambda>c. cc_name c = n) cs = (n \<in> cc_name ` set cs)"
    for cs :: "ConnectionConfig list"
    by (auto simp: list_ex_iff)
  have r1: "removeConnection n st =
     (getConnection n st \<noteq> None, st\<lparr>connections := filter (\<lambda>e. fst e \<noteq> n) (connections st)\<rparr>)"
    by (simp add: removeConnection_def map_has_def map_delete_def getConnection_def)
  have r2: "getConnection n (snd (removeConnection n st)) = None"
    by (simp add: removeConnection_def getConnection_def map_of_map_delete)
  have c1: "(removeConnectionFromConfig config n d = Inr (None, d)) =
     (n \<notin> cc_name ` set (cfg_connections config))"
    by (auto simp: removeConnectionFromConfig_def ex Let_def split: sum.splits)
  have c2: "n \<in> cc_name ` set (cfg_connections config) \<and> writable d \<longrightarrow>
      removeConnectionFromConfig config n d =
        Inr (Some (config\<lparr>cfg_connections := filter (\<lambda>c. cc_name c \<noteq> n) (cfg_connections config)\<rparr>),
             d\<lparr>stored := Parsed (config\<lparr>cfg_connections :=
                  filter (\<lambda>c. cc_name c \<noteq> n) (cfg_connections config)\<rparr>)\<rparr>)"
    by (auto simp: removeConnectionFromConfig_def ex Let_def saveConfig_def)
  have h1: "n \<noteq> [] \<and> loadConfig (dsk w) = Inr (config, d1) \<and>
    n \<notin> cc_name ` set (cfg_connections config) \<longrightarrow>
      remove_connection reload n w = (Inr (NotFoundInConfig n), w\<lparr>dsk := d1\<rparr>)"
    by (auto simp: remove_connection_def removeConnectionFromConfig_def ex)
  have h2: "fst (remove_connection reload n w) = Inr (Removed n path) \<longrightarrow>
      (\<exists>cfg d1. loadConfig (dsk w) = Inr (cfg, d1) \<and> n \<in> cc_name ` set (cfg_connections cfg))"
    by (auto simp: remove_connection_def removeConnectionFromConfig_def ex Let_def
          split: sum.splits option.splits if_splits prod.splits)
  have h3: "n \<noteq> [] \<and> stored (dsk w) \<noteq> NoFile \<and> loadConfig (dsk w) = Inr (config, d1) \<and>
    n \<notin> cc_name ` set (cfg_connections config) \<longrightarrow>
      remove_connection reload n w = (Inr (NotFoundInConfig n), w)"
    by (auto simp: remove_connection_def removeConnectionFromConfig_def ex loadConfig_def
          split: config_file.splits)
  have h4: "n \<noteq> [] \<and> stored (dsk w) = NoFile \<and> writable (dsk w) \<longrightarrow>
      remove_connection reload n w =
        (Inr (NotFoundInConfig n), w\<lparr>dsk := (dsk w)\<lparr>stored := Parsed DEFAULT_CONFIG\<rparr>\<rparr>)"
    by (auto simp: remove_connection_def removeConnectionFromConfig_def loadConfig_def
          saveConfig_def DEFAULT_CONFIG_def)
  show ?thesis using r1 r2 c1 c2 h1 h3 h4 h2 by blast
qed

theorem remove_scope_witness:
  "remove_connection None ''db''
     \<lparr>mgr = env_only_manager,
      dsk = \<lparr>stored = Parsed (demo_config\<lparr>cfg_connections := [hd (cfg_connections demo_config)]\<rparr>),
             writable = True, configPath = ''/home/u/c.json''\<rparr>\<rparr> =
     (Inr (NotFoundInConfig ''db''),
      \<lparr>mgr = env_only_manager,
       dsk = \<lparr>stored = Parsed (demo_config\<lparr>cfg_connections := [hd (cfg_connections demo_config)]\<rparr>),
              writable = True, configPath = ''/home/u/c.json''\<rparr>\<rparr>) \<and>
   fst (remove_connection None ''web''
     \<lparr>mgr = env_only_manager,
      dsk = \<lparr>stored = Parsed (demo_config\<lparr>cfg_connections := [hd (cfg_connections demo_config)]\<rparr>),
             writable = True, configPath = ''/home/u/c.json''\<rparr>\<rparr>) =
     Inr (Removed ''web'' ''/home/u/c.json'') \<and>
   removeConnectionFromConfig demo_config ''web''
     \<lparr>stored = NoFile, writable = True, configPath = ''/home/u/c.json''\<rparr> =
     Inr (Some (demo_config\<lparr>cfg_connections := [cfg_connections demo_config ! 1]\<rparr>),
          \<lparr>stored = Parsed (demo_config\<lparr>cfg_connections := [cfg_connections demo_config ! 1]\<rparr>),
           writable = True, configPath = ''/home/u/c.json''\<rparr>) \<and>
   remove_connection None ''db''
     \<lparr>mgr = env_only_manager,
      dsk = \<lparr>stored = NoFile, writable = True, configPath = ''/home/u/c.json''\<rparr>\<rparr> =
     (Inr (NotFoundInConfig ''db''),
      \<lparr>mgr = env_only_manager,
       dsk = \<lparr>stored = Parsed DEFAULT_CONFIG, writable = True, configPath = ''/home/u/c.json''\<rparr>\<rparr>)"
proof -
  let ?d = "\<lparr>stored = Parsed (demo_config\<lparr>cfg_connections := [hd (cfg_connections demo_config)]\<rparr>),
             writable = True, configPath = ''/home/u/c.json''\<rparr>"
  let ?w = "\<lparr>mgr = env_only_manager, dsk = ?d\<rparr>"
  let ?cfg = "(demo_config\<lparr>cfg_connections := [hd (cfg_connections demo_config)]\<rparr>)
      \<lparr>binarylane := (binarylane demo_config)\<lparr>bl_defaultPrivateKeyPath := Some ''~/.ssh/id_ed25519''\<rparr>\<rparr>"
  have l: "loadConfig (dsk ?w) = Inr (?cfg, ?d)"
    by (simp add: loadConfig_def or_default_def demo_config_def DEFAULT_CONFIG_def)
  have a: "remove_connection None ''db'' ?w = (Inr (NotFoundInConfig ''db''), ?w\<lparr>dsk := ?d\<rparr>)"
    using l remove_scope [where n = "''db''" and config = ?cfg and w = ?w and ?d1.0 = ?d
        and reload = None]
    by (simp add: demo_config_def)
  have b: "fst (remove_connection None ''web'' ?w) = Inr (Removed ''web'' ''/home/u/c.json'')"
    by (simp add: remove_connection_def loadConfig_def or_default_def DEFAULT_CONFIG_def
          removeConnectionFromConfig_def saveConfig_def demo_config_def Let_def)
  have c: "removeConnectionFromConfig demo_config ''web''
     \<lparr>stored = NoFile, writable = True, configPath = ''/home/u/c.json''\<rparr> =
     Inr (Some (demo_config\<lparr>cfg_connections := [cfg_connections demo_config ! 1]\<rparr>),
          \<lparr>stored = Parsed (demo_config\<lparr>cfg_connections := [cfg_connections demo_config ! 1]\<rparr>),
           writable = True, configPath = ''/home/u/c.json''\<rparr>)"
    using remove_scope [where n = "''web''" and config = demo_config
        and d = "\<lparr>stored = NoFile, writable = True, configPath = ''/home/u/c.json''\<rparr>"]
    by (simp add: demo_config_def)
  have e: "remove_connection None ''db''
     \<lparr>mgr = env_only_manager,
      dsk = \<lparr>stored = NoFile, writable = True, configPath = ''/home/u/c.json''\<rparr>\<rparr> =
     (Inr (NotFoundInConfig ''db''),
      \<lparr>mgr = env_only_manager,
       dsk = \<lparr>stored = Parsed DEFAULT_CONFIG, writable = True, configPath = ''/home/u/c.json''\<rparr>\<rparr>)"
    using remove_scope [where n = "''db''" and reload = None
        and w = "\<lparr>mgr = env_only_manager,
                  dsk = \<lparr>stored = NoFile, writable = True, configPath = ''/home/u/c.json''\<rparr>\<rparr>"]
    by simp
  show ?thesis using a b c e by simp
qed

section \<open>Facts about the sessions\<close>

lemmas session_ops = resolve_def reject_def clientEnd_def clearTimeout_def

lemmas starts = start_def runCommand_def uploadFile_def downloadFile_def readFile_def
  listDirectory_def testConnection_def sftpStart_def newSession_def

lemma loaded_db: "getConnection ''db'' loaded_manager = Some db_loaded"
  by (simp add: loaded_manager_def db_loaded_def merge_eval demo_records)

lemma loaded_web:
  "getConnection ''web'' loaded_manager =
     Some (web_manual\<lparr>port := Some 22, privateKeyPath := Some ''/home/u/.ssh/deploy_key''\<rparr>)"
  by (simp add: loaded_manager_def merge_eval demo_records)

lemma tryConnect_db: "tryConnect demo_env None db_loaded = None"
  by (simp add: tryConnect_def getConnectConfig_def db_loaded_def db_env_def truthy_opt_def)


lemma tryConnect_web:
  "tryConnect demo_env None
     (web_manual\<lparr>port := Some 22, privateKeyPath := Some ''/home/u/.ssh/deploy_key''\<rparr>) =
   Some (KeyNotFound ''/home/u/.ssh/deploy_key'')"
  by (simp add: tryConnect_def getConnectConfig_def web_manual_def truthy_opt_def
        existsSync_def demo_env_def)

subsection \<open>Every handler but \<open>error\<close> ends the client when it settles the promise\<close>

lemma deliver_teardown:
  "settled s = None \<Longrightarrow> settled (deliver op conn t0 tev s) = Some out \<Longrightarrow>
   ended (deliver op conn t0 tev s) \<or> (\<exists>m. snd tev = ClientError m)"
  by (cases op; cases "snd tev")
     (auto simp: deliver_def session_ops split: option.splits if_splits)

lemma deliver_error:
  "settled s = None \<Longrightarrow> connected s \<Longrightarrow>
   settled (deliver op conn t0 (now, ClientError m) s) \<noteq> None \<and>
   ended (deliver op conn t0 (now, ClientError m) s) = ended s"
  by (cases op) (auto simp: deliver_def session_ops split: option.splits)

lemma start_state:
  "start env thr st n op = Inr s0 \<Longrightarrow>
   \<not> ended s0 \<and> (settled s0 \<noteq> None) = (\<not> connected s0)"
  by (cases op)
     (auto simp: starts session_ops Let_def split: option.splits if_splits)

lemma start_unknown:
  "getConnection n st = None \<Longrightarrow> start env thr st n op = Inl (UnknownConnection n)"
  by (cases op) (simp_all add: starts)

subsection \<open>The connectivity probe never rejects\<close>

lemma testConnection_start:
  assumes "getConnection n st = Some conn"
  shows "testConnection env thr st n =
           Inr (case tryConnect env thr conn of
                  Some e \<Rightarrow> (newSession None)
                     \<lparr>settled := Some (Resolved (TestResult False (ConfigurationError e) None))\<rparr>
                | None \<Rightarrow> (newSession (Some 10000))\<lparr>connected := True\<rparr>)"
  using assms
  by (simp add: testConnection_def newSession_def session_ops Let_def split: option.splits)

lemma testConnection_on_probing:
  assumes "settled s = None \<longrightarrow> timer s = Some 10000 \<and> connected s"
      and "\<forall>out. settled s = Some out \<longrightarrow> (\<exists>ok msg lat. out = Resolved (TestResult ok msg lat))"
  shows "(settled (testConnection_on conn t0 now ev s) = None \<longrightarrow>
            timer (testConnection_on conn t0 now ev s) = Some 10000 \<and>
            connected (testConnection_on conn t0 now ev s)) \<and>
         (\<forall>out. settled (testConnection_on conn t0 now ev s) = Some out \<longrightarrow>
            (\<exists>ok msg lat. out = Resolved (TestResult ok msg lat)))"
  using assms by (cases ev) (auto simp: session_ops split: option.splits)

lemma fold_probing:
  assumes "settled s = None \<longrightarrow> timer s = Some 10000 \<and> connected s"
      and "\<forall>out. settled s = Some out \<longrightarrow> (\<exists>ok msg lat. out = Resolved (TestResult ok msg lat))"
  shows "(settled (fold (deliver TestConnection conn t0) evs s) = None \<longrightarrow>
            timer (fold (deliver TestConnection conn t0) evs s) = Some 10000 \<and>
            connected (fold (deliver TestConnection conn t0) evs s)) \<and>
         (\<forall>out. settled (fold (deliver TestConnection conn t0) evs s) = Some out \<longrightarrow>
            (\<exists>ok msg lat. out = Resolved (TestResult ok msg lat)))"
  using assms
proof (induction evs arbitrary: s)
  case Nil
  then show ?case by simp
next
  case (Cons tev evs)
  have d: "deliver TestConnection conn t0 tev s = testConnection_on conn t0 (fst tev) (snd tev) s"
    by (simp add: deliver_def)
  have step: "(settled (deliver TestConnection conn t0 tev s) = None \<longrightarrow>
            timer (deliver TestConnection conn t0 tev s) = Some 10000 \<and>
            connected (deliver TestConnection conn t0 tev s)) \<and>
         (\<forall>out. settled (deliver TestConnection conn t0 tev s) = Some out \<longrightarrow>
            (\<exists>ok msg lat. out = Resolved (TestResult ok msg lat)))"
    unfolding d by (rule testConnection_on_probing [OF Cons.prems])
  show ?case
    using Cons.IH [OF conjunct1 [OF step] conjunct2 [OF step]] by simp
qed

subsection \<open>The watchdog of \<open>runCommand\<close> is armed exactly while the promise is pending\<close>

lemma runCommand_start:
  assumes "runCommand env thr st n command timeoutArg = Inr s0"
  shows "timer s0 = (if settled s0 = None then Some (case timeoutArg of None \<Rightarrow> 30000 | Some t \<Rightarrow> t)
                     else None)"
  using assms
  by (auto simp: runCommand_def newSession_def session_ops Let_def split: option.splits)

lemma runCommand_on_watched:
  assumes "timer s = (if settled s = None then Some T else None)"
  shows "timer (runCommand_on T ev s) = (if settled (runCommand_on T ev s) = None then Some T else None)"
  using assms by (cases ev) (auto simp: session_ops split: option.splits if_splits)

lemma deliver_runCommand:
  "deliver (RunCommand command timeoutArg) conn t0 tev s =
   runCommand_on (case timeoutArg of None \<Rightarrow> 30000 | Some t \<Rightarrow> t) (snd tev) s"
  by (simp add: deliver_def)

lemma fold_watched:
  assumes "timer s = (if settled s = None then Some T else None)"
      and "T = (case timeoutArg of None \<Rightarrow> 30000 | Some t \<Rightarrow> t)"
  shows "timer (fold (deliver (RunCommand command timeoutArg) conn t0) evs s) =
         (if settled (fold (deliver (RunCommand command timeoutArg) conn t0) evs s) = None
          then Some T else None)"
  using assms(1)
proof (induction evs arbitrary: s)
  case Nil
  then show ?case by simp
next
  case (Cons tev evs)
  show ?case
    using Cons.IH [OF runCommand_on_watched [OF Cons.prems, of "snd tev"]] assms(2)
    by (simp add: deliver_runCommand)
qed

lemma watchdog_fires:
  assumes "timer s = (if settled s = None then Some T else None)" and "settled s = None"
  shows "settled (runCommand_on T TimerFired s) = Some (Rejected (TimedOut T)) \<and>
         ended (runCommand_on T TimerFired s) \<and> timer (runCommand_on T TimerFired s) = None"
  using assms by (simp add: session_ops)

lemma stream_closes:
  assumes "settled s = None" and "streaming s"
  shows "settled (runCommand_on T (StreamClose code) s) =
           Some (Resolved (CommandResult (stdout s) (stderr s) (case code of None \<Rightarrow> 0 | Some c \<Rightarrow> c))) \<and>
         ended (runCommand_on T (StreamClose code) s) \<and>
         timer (runCommand_on T (StreamClose code) s) = None"
  using assms by (simp add: session_ops)

lemma watchdog_bound:
  assumes "timer s = (if settled s = None then Some T else None)"
      and "settled s = None"
      and "sorted (map fst evs)"
      and "(t, TimerFired) \<in> set evs"
  shows "\<exists>t'. settleTime (\<lambda>tev. runCommand_on T (snd tev)) evs s = Some t' \<and> t' \<le> t"
  using assms
proof (induction evs arbitrary: s)
  case Nil
  then show ?case by simp
next
  case (Cons tev evs)
  let ?s1 = "runCommand_on T (snd tev) s"
  have le: "fst tev \<le> t"
    using Cons.prems(3,4) by force
  show ?case
  proof (cases "settled ?s1 = None")
    case False
    then show ?thesis using le by simp
  next
    case True
    have "tev \<noteq> (t, TimerFired)"
      using True watchdog_fires [OF Cons.prems(1,2)] by auto
    then have mem: "(t, TimerFired) \<in> set evs" using Cons.prems(4) by simp
    have srt: "sorted (map fst evs)" using Cons.prems(3) by simp
    show ?thesis
      using Cons.IH [OF runCommand_on_watched [OF Cons.prems(1), of "snd tev"] True srt mem] True
      by simp
  qed
qed

section \<open>The claims about the sessions\<close>

text \<open>
  C1, as stated, fails for a name that is not in the registry: \<open>testConnection\<close> throws
  \<open>Unknown connection\<close> before it creates the promise, as the other methods do.
\<close>

theorem testConnection_unknown_name_throws:
  "getConnection ''ghost'' loaded_manager = None \<and>
   testConnection demo_env None loaded_manager ''ghost'' = Inl (UnknownConnection ''ghost'')"
  by (simp add: testConnection_def loaded_manager_def merge_eval demo_records)

text \<open>
  C1, amended. For every name that is in the registry, \<open>testConnection\<close> returns a
  promise that is never rejected: when authentication resolution (or \<open>connect\<close>)
  throws, it is resolved at once with a failure report; and after any sequence of events
  it is either resolved with a report \<open>{success, message, latencyMs?}\<close>, or still
  pending with the 10000 ms watchdog armed, and then the watchdog resolves it with the
  report \<open>Connection timed out\<close>, an \<open>error\<close> of the client with \<open>Connection failed\<close>,
  and \<open>ready\<close> with success and the latency. For every name that is not in the
  registry the call throws \<open>Unknown connection\<close>, and so does each of the six
  operations.
\<close>

theorem testConnection_reports:
  "(getConnection n st = None \<longrightarrow>
      testConnection env thr st n = Inl (UnknownConnection n) \<and>
      start env thr st n op = Inl (UnknownConnection n)) \<and>
   (getConnection n st = Some conn \<longrightarrow>
      (\<exists>s0. testConnection env thr st n = Inr s0 \<and>
        (\<forall>e. tryConnect env thr conn = Some e \<longrightarrow>
           settled s0 = Some (Resolved (TestResult False (ConfigurationError e) None))) \<and>
        (\<forall>evs out. settled (fold (deliver TestConnection conn t0) evs s0) = Some out \<longrightarrow>
           (\<exists>ok msg lat. out = Resolved (TestResult ok msg lat))) \<and>
        (\<forall>evs. settled (fold (deliver TestConnection conn t0) evs s0) = None \<longrightarrow>
           timer (fold (deliver TestConnection conn t0) evs s0) = Some 10000 \<and>
           settled (deliver TestConnection conn t0 (now, TimerFired)
                     (fold (deliver TestConnection conn t0) evs s0)) =
             Some (Resolved (TestResult False ConnectionTimedOut None)) \<and>
           settled (deliver TestConnection conn t0 (now, ClientError m)
                     (fold (deliver TestConnection conn t0) evs s0)) =
             Some (Resolved (TestResult False (ConnectionFailed m) None)) \<and>
           settled (deliver TestConnection conn t0 (now, Ready)
                     (fold (deliver TestConnection conn t0) evs s0)) =
             Some (Resolved (TestResult True (ConnectedSuccessfully (host conn) (port conn))
                     (Some (now - t0)))))))"
proof -
  have unknown: "getConnection n st = None \<longrightarrow>
      testConnection env thr st n = Inl (UnknownConnection n) \<and>
      start env thr st n op = Inl (UnknownConnection n)"
    using start_unknown [of n st env thr op] by (simp add: testConnection_def)
  have known: "\<exists>s0. testConnection env thr st n = Inr s0 \<and>
        (\<forall>e. tryConnect env thr conn = Some e \<longrightarrow>
           settled s0 = Some (Resolved (TestResult False (ConfigurationError e) None))) \<and>
        (\<forall>evs out. settled (fold (deliver TestConnection conn t0) evs s0) = Some out \<longrightarrow>
           (\<exists>ok msg lat. out = Resolved (TestResult ok msg lat))) \<and>
        (\<forall>evs. settled (fold (deliver TestConnection conn t0) evs s0) = None \<longrightarrow>
           timer (fold (deliver TestConnection conn t0) evs s0) = Some 10000 \<and>
           settled (deliver TestConnection conn t0 (now, TimerFired)
                     (fold (deliver TestConnection conn t0) evs s0)) =
             Some (Resolved (TestResult False ConnectionTimedOut None)) \<and>
           settled (deliver TestConnection conn t0 (now, ClientError m)
                     (fold (deliver TestConnection conn t0) evs s0)) =
             Some (Resolved (TestResult False (ConnectionFailed m) None)) \<and>
           settled (deliver TestConnection conn t0 (now, Ready)
                     (fold (deliver TestConnection conn t0) evs s0)) =
             Some (Resolved (TestResult True (ConnectedSuccessfully (host conn) (port conn))
                     (Some (now - t0)))))"
    if reg: "getConnection n st = Some conn"
  proof -
    let ?s0 = "case tryConnect env thr conn of
                 Some e \<Rightarrow> (newSession None)
                    \<lparr>settled := Some (Resolved (TestResult False (ConfigurationError e) None))\<rparr>
               | None \<Rightarrow> (newSession (Some 10000))\<lparr>connected := True\<rparr>"
    have s0: "testConnection env thr st n = Inr ?s0"
      by (rule testConnection_start [OF reg])
    have i1: "settled ?s0 = None \<longrightarrow> timer ?s0 = Some 10000 \<and> connected ?s0"
      by (auto simp: newSession_def split: option.splits)
    have i2: "\<forall>out. settled ?s0 = Some out \<longrightarrow> (\<exists>ok msg lat. out = Resolved (TestResult ok msg lat))"
      by (auto simp: newSession_def split: option.splits)
    have cfg: "\<forall>e. tryConnect env thr conn = Some e \<longrightarrow>
         settled ?s0 = Some (Resolved (TestResult False (ConfigurationError e) None))"
      by simp
    have res: "\<forall>evs out. settled (fold (deliver TestConnection conn t0) evs ?s0) = Some out \<longrightarrow>
         (\<exists>ok msg lat. out = Resolved (TestResult ok msg lat))"
      using fold_probing [OF i1 i2, of conn t0] by blast
    have pend: "settled (fold (deliver TestConnection conn t0) evs ?s0) = None \<longrightarrow>
         timer (fold (deliver TestConnection conn t0) evs ?s0) = Some 10000 \<and>
         settled (deliver TestConnection conn t0 (now, TimerFired)
                   (fold (deliver TestConnection conn t0) evs ?s0)) =
           Some (Resolved (TestResult False ConnectionTimedOut None)) \<and>
         settled (deliver TestConnection conn t0 (now, ClientError m)
                   (fold (deliver TestConnection conn t0) evs ?s0)) =
           Some (Resolved (TestResult False (ConnectionFailed m) None)) \<and>
         settled (deliver TestConnection conn t0 (now, Ready)
                   (fold (deliver TestConnection conn t0) evs ?s0)) =
           Some (Resolved (TestResult True (ConnectedSuccessfully (host conn) (port conn))
                   (Some (now - t0))))" for evs
      using fold_probing [OF i1 i2, of conn t0 evs]
      by (auto simp: deliver_def session_ops)
    show ?thesis using s0 cfg res pend by blast
  qed
  show ?thesis using unknown known by blast
qed

theorem testConnection_reports_witness:
  "getConnection ''db'' loaded_manager = Some db_loaded \<and>
   testConnection demo_env None loaded_manager ''db'' =
     Inr ((newSession (Some 10000))\<lparr>connected := True\<rparr>) \<and>
   settled (fold (deliver TestConnection db_loaded 100) [(10100, TimerFired), (10200, Ready)]
     ((newSession (Some 10000))\<lparr>connected := True\<rparr>)) =
     Some (Resolved (TestResult False ConnectionTimedOut None)) \<and>
   settled (fold (deliver TestConnection db_loaded 100) [(140, Ready)]
     ((newSession (Some 10000))\<lparr>connected := True\<rparr>)) =
     Some (Resolved (TestResult True (ConnectedSuccessfully ''192.168.1.11'' (Some 22)) (Some 40))) \<and>
   getConnection ''nowhere'' loaded_manager = None \<and>
   start demo_env None loaded_manager ''nowhere'' (RunCommand ''uptime'' None) =
     Inl (UnknownConnection ''nowhere'')"
proof -
  have st: "testConnection demo_env None loaded_manager ''db'' =
     Inr ((newSession (Some 10000))\<lparr>connected := True\<rparr>)"
    by (simp add: testConnection_start [OF loaded_db] tryConnect_db)
  obtain s0 where s0: "testConnection demo_env None loaded_manager ''db'' = Inr s0"
    and pend: "\<And>evs. settled (fold (deliver TestConnection db_loaded 100) evs s0) = None \<Longrightarrow>
       settled (deliver TestConnection db_loaded 100 (140, Ready)
                 (fold (deliver TestConnection db_loaded 100) evs s0)) =
         Some (Resolved (TestResult True (ConnectedSuccessfully (host db_loaded) (port db_loaded))
                 (Some (140 - 100))))"
    using loaded_db
      testConnection_reports [where n = "''db''" and st = loaded_manager and conn = db_loaded
        and env = demo_env and thr = None and ?t0.0 = 100 and now = 140]
    by blast
  have eq: "s0 = (newSession (Some 10000))\<lparr>connected := True\<rparr>" using s0 st by simp
  have ready: "settled (fold (deliver TestConnection db_loaded 100) [(140, Ready)]
     ((newSession (Some 10000))\<lparr>connected := True\<rparr>)) =
     Some (Resolved (TestResult True (ConnectedSuccessfully ''192.168.1.11'' (Some 22)) (Some 40)))"
    using pend [of "[]"] by (simp add: eq newSession_def db_loaded_def db_env_def)
  have fired: "settled (fold (deliver TestConnection db_loaded 100) [(10100, TimerFired), (10200, Ready)]
     ((newSession (Some 10000))\<lparr>connected := True\<rparr>)) =
     Some (Resolved (TestResult False ConnectionTimedOut None))"
    by (simp add: deliver_def newSession_def session_ops)
  have none: "getConnection ''nowhere'' loaded_manager = None"
    by (simp add: loaded_manager_def merge_eval demo_records)
  have thrown: "start demo_env None loaded_manager ''nowhere'' (RunCommand ''uptime'' None) =
     Inl (UnknownConnection ''nowhere'')"
    using none
      testConnection_reports [where n = "''nowhere''" and st = loaded_manager and env = demo_env
        and thr = None and op = "RunCommand ''uptime'' None"]
    by simp
  show ?thesis using loaded_db st ready fired none thrown by simp
qed



text \<open>
  C4. The watchdog of \<open>runCommand\<close>, for every timeout \<open>T\<close> the caller gives (30000 ms
  by default). After any sequence of events the timer is armed, with delay \<open>T\<close>, exactly
  while the call is pending: a call never waits without its watchdog, and a completed
  call leaves no timer behind. When the watchdog fires on a pending call, the client is
  ended and the call is rejected with \<open>timed out after T\<close>; when the stream closes
  first, the call resolves with the output and the exit code, the timer is cleared and
  the client ended. Time: the events carry clock readings; in every run whose readings
  do not decrease and in which the watchdog fires at reading \<open>t\<close> (the time it was
  armed, plus \<open>T\<close>, plus the latency of the timer), the call is complete at a reading
  no later than \<open>t\<close>, whatever else the host does or fails to do.
\<close>

theorem runCommand_watchdog:
  assumes "runCommand env thr st n command timeoutArg = Inr s0"
      and "T = (case timeoutArg of None \<Rightarrow> 30000 | Some t \<Rightarrow> t)"
  shows "timer (fold (deliver (RunCommand command timeoutArg) conn t0) evs s0) =
           (if settled (fold (deliver (RunCommand command timeoutArg) conn t0) evs s0) = None
            then Some T else None) \<and>
         (settled (fold (deliver (RunCommand command timeoutArg) conn t0) evs s0) = None \<longrightarrow>
            settled (deliver (RunCommand command timeoutArg) conn t0 (now, TimerFired)
                      (fold (deliver (RunCommand command timeoutArg) conn t0) evs s0)) =
              Some (Rejected (TimedOut T)) \<and>
            ended (deliver (RunCommand command timeoutArg) conn t0 (now, TimerFired)
                      (fold (deliver (RunCommand command timeoutArg) conn t0) evs s0)) \<and>
            timer (deliver (RunCommand command timeoutArg) conn t0 (now, TimerFired)
                      (fold (deliver (RunCommand command timeoutArg) conn t0) evs s0)) = None) \<and>
         (settled (fold (deliver (RunCommand command timeoutArg) conn t0) evs s0) = None \<and>
          streaming (fold (deliver (RunCommand command timeoutArg) conn t0) evs s0) \<longrightarrow>
            settled (deliver (RunCommand command timeoutArg) conn t0 (now, StreamClose code)
                      (fold (deliver (RunCommand command timeoutArg) conn t0) evs s0)) =
              Some (Resolved (CommandResult
                (stdout (fold (deliver (RunCommand command timeoutArg) conn t0) evs s0))
                (stderr (fold (deliver (RunCommand command timeoutArg) conn t0) evs s0))
                (case code of None \<Rightarrow> 0 | Some c \<Rightarrow> c))) \<and>
            ended (deliver (RunCommand command timeoutArg) conn t0 (now, StreamClose code)
                      (fold (deliver (RunCommand command timeoutArg) conn t0) evs s0)) \<and>
            timer (deliver (RunCommand command timeoutArg) conn t0 (now, StreamClose code)
                      (fold (deliver (RunCommand command timeoutArg) conn t0) evs s0)) = None) \<and>
         (sorted (map fst evs) \<and> (t, TimerFired) \<in> set evs \<longrightarrow>
            settled s0 \<noteq> None \<or>
            (\<exists>t'. settleTime (deliver (RunCommand command timeoutArg) conn t0) evs s0 = Some t' \<and>
                  t' \<le> t))"
proof -
  let ?f = "deliver (RunCommand command timeoutArg) conn t0"
  let ?s = "fold ?f evs s0"
  have init: "timer s0 = (if settled s0 = None then Some T else None)"
    using runCommand_start [OF assms(1)] assms(2) by simp
  have inv: "timer ?s = (if settled ?s = None then Some T else None)"
    by (rule fold_watched [OF init assms(2)])
  have f: "?f = (\<lambda>tev. runCommand_on T (snd tev))"
    by (intro ext) (simp add: deliver_runCommand assms(2))
  have fire: "settled ?s = None \<longrightarrow>
      settled (?f (now, TimerFired) ?s) = Some (Rejected (TimedOut T)) \<and>
      ended (?f (now, TimerFired) ?s) \<and> timer (?f (now, TimerFired) ?s) = None"
    using watchdog_fires [OF inv] by (simp add: deliver_runCommand assms(2))
  have close: "settled ?s = None \<and> streaming ?s \<longrightarrow>
      settled (?f (now, StreamClose code) ?s) =
        Some (Resolved (CommandResult (stdout ?s) (stderr ?s) (case code of None \<Rightarrow> 0 | Some c \<Rightarrow> c))) \<and>
      ended (?f (now, StreamClose code) ?s) \<and> timer (?f (now, StreamClose code) ?s) = None"
    using stream_closes [of ?s T code] by (simp add: deliver_runCommand assms(2))
  have bound: "sorted (map fst evs) \<and> (t, TimerFired) \<in> set evs \<longrightarrow>
      settled s0 \<noteq> None \<or> (\<exists>t'. settleTime ?f evs s0 = Some t' \<and> t' \<le> t)"
    using watchdog_bound [OF init, of evs t] unfolding f by blast
  show ?thesis using inv fire close bound by blast
qed

theorem runCommand_watchdog_witness:
  "runCommand demo_env None loaded_manager ''db'' ''sleep 60'' (Some 5000) =
     Inr ((newSession (Some 5000))\<lparr>connected := True\<rparr>) \<and>
   sorted (map fst [(120::int, Ready), (130, ChannelOpened None), (5003, TimerFired),
                    (60200, StreamClose (Some 0))]) \<and>
   settleTime (deliver (RunCommand ''sleep 60'' (Some 5000)) db_loaded 0)
     [(120, Ready), (130, ChannelOpened None), (5003, TimerFired), (60200, StreamClose (Some 0))]
     ((newSession (Some 5000))\<lparr>connected := True\<rparr>) = Some 5003 \<and>
   fold (deliver (RunCommand ''sleep 60'' (Some 5000)) db_loaded 0)
     [(120, Ready), (130, ChannelOpened None), (5003, TimerFired), (60200, StreamClose (Some 0))]
     ((newSession (Some 5000))\<lparr>connected := True\<rparr>) =
     (newSession None)\<lparr>connected := True, streaming := True, ended := True,
        settled := Some (Rejected (TimedOut 5000))\<rparr> \<and>
   fold (deliver (RunCommand ''uptime'' None) db_loaded 0)
     [(120, Ready), (130, ChannelOpened None), (140, StdoutData ''up 3 days''),
      (150, StreamClose None)]
     ((newSession (Some 30000))\<lparr>connected := True\<rparr>) =
     (newSession None)\<lparr>connected := True, streaming := True, ended := True,
        stdout := ''up 3 days'',
        settled := Some (Resolved (CommandResult ''up 3 days'' [] 0))\<rparr>"
proof -
  let ?evs = "[(120::int, Ready), (130, ChannelOpened None), (5003, TimerFired),
               (60200, StreamClose (Some 0))]"
  have st: "runCommand demo_env None loaded_manager ''db'' ''sleep 60'' (Some 5000) =
     Inr ((newSession (Some 5000))\<lparr>connected := True\<rparr>)"
    by (simp add: runCommand_def loaded_db tryConnect_db Let_def)
  have srt: "sorted (map fst ?evs)" by simp
  have b: "\<exists>t'. settleTime (deliver (RunCommand ''sleep 60'' (Some 5000)) db_loaded 0) ?evs
              ((newSession (Some 5000))\<lparr>connected := True\<rparr>) = Some t' \<and> t' \<le> 5003"
    using runCommand_watchdog [OF st, of 5000 db_loaded 0 ?evs 0 None 5003]
    by (simp add: newSession_def)
  have ev: "settleTime (deliver (RunCommand ''sleep 60'' (Some 5000)) db_loaded 0) ?evs
              ((newSession (Some 5000))\<lparr>connected := True\<rparr>) = Some 5003"
    by (simp add: deliver_def newSession_def session_ops)
  have fin: "fold (deliver (RunCommand ''sleep 60'' (Some 5000)) db_loaded 0) ?evs
     ((newSession (Some 5000))\<lparr>connected := True\<rparr>) =
     (newSession None)\<lparr>connected := True, streaming := True, ended := True,
        settled := Some (Rejected (TimedOut 5000))\<rparr>"
    by (simp add: deliver_def newSession_def session_ops)
  have ok: "fold (deliver (RunCommand ''uptime'' None) db_loaded 0)
     [(120, Ready), (130, ChannelOpened None), (140, StdoutData ''up 3 days''),
      (150, StreamClose None)]
     ((newSession (Some 30000))\<lparr>connected := True\<rparr>) =
     (newSession None)\<lparr>connected := True, streaming := True, ended := True,
        stdout := ''up 3 days'',
        settled := Some (Resolved (CommandResult ''up 3 days'' [] 0))\<rparr>"
    by (simp add: deliver_def newSession_def session_ops)
  show ?thesis using st srt b ev fin ok by simp
qed

end
